theory Spec2Isabelle
  imports Main "HOL-Library.Sublist"
begin

section \<open>Strings\<close>

text \<open>
  JavaScript strings are modelled as \<open>string\<close> (lists of 8-bit characters); the
  development covers ASCII text. A backslash cannot be written inside a HOL string
  literal, so it has a name of its own, and \<open>bs s\<close> is \<open>s\<close> with a backslash in front.
\<close>

definition bslash :: char where
  "bslash = CHR 0x5C"

definition bs :: "string \<Rightarrow> string" where
  "bs s = bslash # s"

text \<open>
  The order of the character codes, read off the bits from the most significant one:
  the first bit in which two characters differ decides.
\<close>

fun bits_le :: "bool list \<Rightarrow> bool list \<Rightarrow> bool" where
  "bits_le (x # xs) (y # ys) = (if x = y then bits_le xs ys else y)"
| "bits_le xs ys = True"

definition char_bits :: "char \<Rightarrow> bool list" where
  "char_bits c =
     [digit7 c, digit6 c, digit5 c, digit4 c, digit3 c, digit2 c, digit1 c, digit0 c]"

definition char_le :: "char \<Rightarrow> char \<Rightarrow> bool" where
  "char_le c d = bits_le (char_bits c) (char_bits d)"

text \<open>The number a list of bits stands for, most significant bit first.\<close>

definition bits_value :: "bool list \<Rightarrow> nat" where
  "bits_value xs = foldl (\<lambda>n b. 2 * n + of_bool b) 0 xs"

definition in_range :: "char \<Rightarrow> char \<Rightarrow> char \<Rightarrow> bool" where
  "in_range lo hi c = (char_le lo c \<and> char_le c hi)"

text \<open>White space as \<open>\s\<close>, \<open>trim\<close> and \<open>split(/\s+/)\<close> see it (ASCII part).\<close>

definition is_space :: "char \<Rightarrow> bool" where
  "is_space c = (c = CHR '' '' \<or> c = CHR 0x09 \<or> c = CHR 0x0A \<or> c = CHR 0x0B
     \<or> c = CHR 0x0C \<or> c = CHR 0x0D)"

definition is_digit :: "char \<Rightarrow> bool" where
  "is_digit c = in_range (CHR ''0'') (CHR ''9'') c"

definition is_upper :: "char \<Rightarrow> bool" where
  "is_upper c = in_range (CHR ''A'') (CHR ''Z'') c"

definition is_lower :: "char \<Rightarrow> bool" where
  "is_lower c = in_range (CHR ''a'') (CHR ''z'') c"

definition is_word :: "char \<Rightarrow> bool" where
  "is_word c = (is_lower c \<or> is_upper c \<or> is_digit c \<or> c = CHR ''_'')"

text \<open>The two cases of an ASCII letter differ in the bit of weight 32.\<close>

definition to_lower :: "char \<Rightarrow> char" where
  "to_lower c =
     (if is_upper c
      then Char (digit0 c) (digit1 c) (digit2 c) (digit3 c) (digit4 c) True (digit6 c) (digit7 c)
      else c)"

definition to_upper :: "char \<Rightarrow> char" where
  "to_upper c =
     (if is_lower c
      then Char (digit0 c) (digit1 c) (digit2 c) (digit3 c) (digit4 c) False (digit6 c) (digit7 c)
      else c)"

definition toLowerCase :: "string \<Rightarrow> string" where
  "toLowerCase s = map to_lower s"

definition trim :: "string \<Rightarrow> string" where
  "trim s = rev (dropWhile is_space (rev (dropWhile is_space s)))"

definition startsWith :: "string \<Rightarrow> string \<Rightarrow> bool" where
  "startsWith s p = prefix p s"

definition endsWith :: "string \<Rightarrow> string \<Rightarrow> bool" where
  "endsWith s p = suffix p s"

definition str_includes :: "string \<Rightarrow> string \<Rightarrow> bool" where
  "str_includes s p = sublist p s"

fun join :: "string \<Rightarrow> string list \<Rightarrow> string" where
  "join sep [] = []"
| "join sep [x] = x"
| "join sep (x # y # ys) = x @ sep @ join sep (y # ys)"

text \<open>A number in decimal, as a template string prints it.\<close>

fun decimal :: "nat \<Rightarrow> string" where
  "decimal n = (if n < 10 then [''0123456789'' ! n] else decimal (n div 10) @ [''0123456789'' ! (n mod 10)])"

declare decimal.simps [simp del]

text \<open>
  \<open>s.split(/\s+/)\<close>: the pieces between maximal runs of white space; a run at either
  end leaves an empty piece there, as in JavaScript.
\<close>

fun split_ws_from :: "bool \<Rightarrow> string \<Rightarrow> string list" where
  "split_ws_from in_run [] = [[]]"
| "split_ws_from in_run (c # cs) =
     (if is_space c then (if in_run then split_ws_from True cs else [] # split_ws_from True cs)
      else (case split_ws_from False cs of [] \<Rightarrow> [[c]] | t # ts \<Rightarrow> (c # t) # ts))"

definition split_ws :: "string \<Rightarrow> string list" where
  "split_ws s = split_ws_from False s"

text \<open>The index of the first occurrence of \<open>p\<close> in \<open>s\<close>, as \<open>indexOf\<close> finds it.\<close>

fun index_of :: "string \<Rightarrow> string \<Rightarrow> nat option" where
  "index_of [] p = (if p = [] then Some 0 else None)"
| "index_of (c # cs) p =
     (if prefix p (c # cs) then Some 0 else map_option Suc (index_of cs p))"

text \<open>
  The replacement text of \<open>String.prototype.replace\<close> when the replacement is a string
  and the match has no capture groups: \<open>$$\<close> is a dollar, \<open>$&\<close> the matched text,
  \<open>$`\<close> the text before the match, \<open>$'\<close> the text after it; every other character,
  a dollar before anything else included, stands for itself.
\<close>

fun get_substitution :: "string \<Rightarrow> string \<Rightarrow> string \<Rightarrow> string \<Rightarrow> string" where
  "get_substitution matched pre post [] = []"
| "get_substitution matched pre post [c] = [c]"
| "get_substitution matched pre post (c # d # r) =
     (if c = CHR ''$'' \<and> d = CHR ''$'' then CHR ''$'' # get_substitution matched pre post r
      else if c = CHR ''$'' \<and> d = CHR ''&'' then matched @ get_substitution matched pre post r
      else if c = CHR ''$'' \<and> d = CHR 0x60 then pre @ get_substitution matched pre post r
      else if c = CHR ''$'' \<and> d = CHR 0x27 then post @ get_substitution matched pre post r
      else c # get_substitution matched pre post (d # r))"

text \<open>\<open>s.replace(p, repl)\<close> for a string pattern \<open>p\<close>: the first occurrence only.\<close>

definition replace_str :: "string \<Rightarrow> string \<Rightarrow> string \<Rightarrow> string" where
  "replace_str s p repl =
     (case index_of s p of
        None \<Rightarrow> s
      | Some i \<Rightarrow>
          take i s @ get_substitution p (take i s) (drop (i + length p) s) repl
            @ drop (i + length p) s)"

section \<open>Regular expressions\<close>

text \<open>
  The hooks build their matchers with \<open>new RegExp\<close> and regular-expression literals.
  The engine is not part of the repository; it is modelled here after the ECMAScript
  specification (pattern grammar with the web-compatibility rules for braces and
  identity escapes, backtracking matchers with continuations) for the constructs the
  hooks and ordinary rule files use: alternation, greedy and lazy quantifiers, capturing
  and non-capturing groups, look-ahead, back-references, classes, \<open>^\<close>, \<open>$\<close>, \<open>\b\<close>,
  \<open>\B\<close>, and the flags \<open>i\<close> and \<open>g\<close>. Look-behind, named groups, hexadecimal, octal,
  control and Unicode escapes and the other flags are outside the model: the parser
  returns \<open>None\<close> for them as it does for a syntax error.
\<close>

datatype citem = CChar char | CRange char char | CEsc char

datatype rx =
    REmpty
  | RChar char
  | RAny
  | RSet bool "citem list"
  | RSeq rx rx
  | RAlt rx rx
  | RRep rx nat "nat option" bool
  | RGroup nat rx
  | RBackref nat
  | RLook bool rx
  | RBol
  | REol
  | RWordB bool

subsection \<open>Matching\<close>

text \<open>
  A matcher state: the character before the current position (none at the start of the
  input), the rest of the input, and the captures (index 0 is not used).
\<close>

type_synonym mstate = "char option \<times> string \<times> string option list"

type_synonym matcher = "mstate \<Rightarrow> (mstate \<Rightarrow> mstate option) \<Rightarrow> mstate option"

text \<open>Canonicalize: with the flag \<open>i\<close> characters are compared in upper case.\<close>

definition canon :: "bool \<Rightarrow> char \<Rightarrow> char" where
  "canon ic c = (if ic then to_upper c else c)"

definition esc_class :: "char \<Rightarrow> char \<Rightarrow> bool" where
  "esc_class e c =
     (if e = CHR ''d'' then is_digit c
      else if e = CHR ''D'' then \<not> is_digit c
      else if e = CHR ''s'' then is_space c
      else if e = CHR ''S'' then \<not> is_space c
      else if e = CHR ''w'' then is_word c
      else \<not> is_word c)"

fun citem_match :: "bool \<Rightarrow> char \<Rightarrow> citem \<Rightarrow> bool" where
  "citem_match ic c (CChar d) = (canon ic c = canon ic d)"
| "citem_match ic c (CRange lo hi) =
     (in_range lo hi c \<or> (ic \<and> (in_range lo hi (to_upper c) \<or> in_range lo hi (to_lower c))))"
| "citem_match ic c (CEsc e) = esc_class e c"

definition is_line_terminator :: "char \<Rightarrow> bool" where
  "is_line_terminator c = (c = CHR 0x0A \<or> c = CHR 0x0D)"

definition one_char :: "(char \<Rightarrow> bool) \<Rightarrow> matcher" where
  "one_char P x c =
     (case x of (p, r, caps) \<Rightarrow>
        (case r of [] \<Rightarrow> None | a # r' \<Rightarrow> if P a then c (Some a, r', caps) else None))"

definition at_word_boundary :: "mstate \<Rightarrow> bool" where
  "at_word_boundary x =
     (case x of (p, r, caps) \<Rightarrow>
        ((case p of None \<Rightarrow> False | Some a \<Rightarrow> is_word a)
           \<noteq> (case r of [] \<Rightarrow> False | b # r' \<Rightarrow> is_word b)))"

definition clear_caps :: "nat list \<Rightarrow> mstate \<Rightarrow> mstate" where
  "clear_caps gs x = (case x of (p, r, caps) \<Rightarrow> (p, r, foldl (\<lambda>cs k. cs[k := None]) caps gs))"

definition same_pos :: "mstate \<Rightarrow> mstate \<Rightarrow> bool" where
  "same_pos x y = (length (fst (snd x)) = length (fst (snd y)))"

text \<open>
  RepeatMatcher: at most \<open>mx\<close> and at least \<open>mn\<close> rounds of \<open>m\<close>; a round that
  consumes nothing once the minimum is reached is refused, so with enough fuel
  (the minimum plus the length of the remaining input) the fuel never runs out.
\<close>

primrec rep_m :: "nat \<Rightarrow> matcher \<Rightarrow> nat list \<Rightarrow> nat \<Rightarrow> nat option \<Rightarrow> bool \<Rightarrow> matcher" where
  "rep_m 0 m gs mn mx greedy = (\<lambda>x c. None)"
| "rep_m (Suc fuel) m gs mn mx greedy = (\<lambda>x c.
     if mx = Some 0 then c x
     else if mn \<noteq> 0 then
       m (clear_caps gs x) (\<lambda>y. rep_m fuel m gs (mn - 1) (map_option (\<lambda>k. k - 1) mx) greedy y c)
     else if greedy then
       (case m (clear_caps gs x)
              (\<lambda>y. if same_pos x y then None
                    else rep_m fuel m gs 0 (map_option (\<lambda>k. k - 1) mx) greedy y c) of
          Some z \<Rightarrow> Some z
        | None \<Rightarrow> c x)
     else
       (case c x of
          Some z \<Rightarrow> Some z
        | None \<Rightarrow>
            m (clear_caps gs x)
              (\<lambda>y. if same_pos x y then None
                    else rep_m fuel m gs 0 (map_option (\<lambda>k. k - 1) mx) greedy y c)))"

primrec groups_of :: "rx \<Rightarrow> nat list" where
  "groups_of REmpty = []"
| "groups_of (RChar d) = []"
| "groups_of RAny = []"
| "groups_of (RSet neg items) = []"
| "groups_of (RSeq a b) = groups_of a @ groups_of b"
| "groups_of (RAlt a b) = groups_of a @ groups_of b"
| "groups_of (RRep a mn mx greedy) = groups_of a"
| "groups_of (RGroup k a) = k # groups_of a"
| "groups_of (RBackref k) = []"
| "groups_of (RLook neg a) = groups_of a"
| "groups_of RBol = []"
| "groups_of REol = []"
| "groups_of (RWordB neg) = []"

definition backref_m :: "bool \<Rightarrow> nat \<Rightarrow> matcher" where
  "backref_m ic k x c =
     (case x of (p, r, caps) \<Rightarrow>
        (case (if k < length caps then caps ! k else None) of
           None \<Rightarrow> c x
         | Some s \<Rightarrow>
             if s = [] then c x
             else if length s \<le> length r \<and> map (canon ic) (take (length s) r) = map (canon ic) s
             then c (Some (last (take (length s) r)), drop (length s) r, caps)
             else None))"

definition group_end :: "nat \<Rightarrow> mstate \<Rightarrow> mstate \<Rightarrow> mstate" where
  "group_end k x y =
     (case x of (p, r, caps) \<Rightarrow>
        (case y of (p', r', caps') \<Rightarrow>
           (p', r', caps'[k := Some (take (length r - length r') r)])))"

primrec rx_m :: "rx \<Rightarrow> bool \<Rightarrow> matcher" where
  "rx_m REmpty ic = (\<lambda>x c. c x)"
| "rx_m (RChar d) ic = one_char (\<lambda>a. canon ic a = canon ic d)"
| "rx_m RAny ic = one_char (\<lambda>a. \<not> is_line_terminator a)"
| "rx_m (RSet neg items) ic = one_char (\<lambda>a. list_ex (citem_match ic a) items \<noteq> neg)"
| "rx_m (RSeq a b) ic = (\<lambda>x c. rx_m a ic x (\<lambda>y. rx_m b ic y c))"
| "rx_m (RAlt a b) ic = (\<lambda>x c. case rx_m a ic x c of Some z \<Rightarrow> Some z | None \<Rightarrow> rx_m b ic x c)"
| "rx_m (RRep a mn mx greedy) ic = (\<lambda>x c.
     rep_m (Suc (mn + length (fst (snd x)))) (rx_m a ic) (groups_of a) mn mx greedy x c)"
| "rx_m (RGroup k a) ic = (\<lambda>x c. rx_m a ic x (\<lambda>y. c (group_end k x y)))"
| "rx_m (RBackref k) ic = backref_m ic k"
| "rx_m (RLook neg a) ic = (\<lambda>x c.
     case rx_m a ic x Some of
       None \<Rightarrow> (if neg then c x else None)
     | Some y \<Rightarrow> (if neg then None else c (fst x, fst (snd x), snd (snd y))))"
| "rx_m RBol ic = (\<lambda>x c. if fst x = None then c x else None)"
| "rx_m REol ic = (\<lambda>x c. if fst (snd x) = [] then c x else None)"
| "rx_m (RWordB neg) ic = (\<lambda>x c. if at_word_boundary x \<noteq> neg then c x else None)"

subsection \<open>Parsing\<close>

text \<open>
  The parser reads the pattern from left to right with a stack of open groups. Each
  frame holds the kind of its group, the alternatives closed so far and the terms of
  the current alternative (both latest first). Beside the stack it keeps whether the
  last term may take a quantifier, the number of capturing groups opened and the
  largest back-reference met.
\<close>

datatype gkind = GTop | GCap nat | GNon | GLook bool

datatype qstate = QOk | QDone | QNo

type_synonym frame = "gkind \<times> rx list \<times> rx list"

type_synonym pstate = "frame list \<times> qstate \<times> nat \<times> nat"

fun mk_seq :: "rx list \<Rightarrow> rx" where
  "mk_seq [] = REmpty"
| "mk_seq [a] = a"
| "mk_seq (a # b # r) = RSeq a (mk_seq (b # r))"

fun mk_alt :: "rx list \<Rightarrow> rx" where
  "mk_alt [] = REmpty"
| "mk_alt [a] = a"
| "mk_alt (a # b # r) = RAlt a (mk_alt (b # r))"

definition close_frame :: "rx list \<Rightarrow> rx list \<Rightarrow> rx" where
  "close_frame alts cur = mk_alt (rev (mk_seq (rev cur) # alts))"

definition wrap_group :: "gkind \<Rightarrow> rx \<Rightarrow> rx" where
  "wrap_group k a =
     (case k of GTop \<Rightarrow> a | GCap n \<Rightarrow> RGroup n a | GNon \<Rightarrow> a | GLook neg \<Rightarrow> RLook neg a)"

definition digit_value :: "char \<Rightarrow> nat" where
  "digit_value d = length (takeWhile (\<lambda>c. c \<noteq> d) ''0123456789'')"

definition digits_value :: "string \<Rightarrow> nat" where
  "digits_value ds = foldl (\<lambda>n d. 10 * n + digit_value d) 0 ds"

text \<open>An escape inside a class, and (but for \<open>\b\<close>, \<open>\B\<close> and digits) outside one.\<close>

definition class_escape :: "char \<Rightarrow> citem option" where
  "class_escape e =
     (if e \<in> set ''dDsSwW'' then Some (CEsc e)
      else if e = CHR ''b'' then Some (CChar (CHR 0x08))
      else if e = CHR ''t'' then Some (CChar (CHR 0x09))
      else if e = CHR ''n'' then Some (CChar (CHR 0x0A))
      else if e = CHR ''v'' then Some (CChar (CHR 0x0B))
      else if e = CHR ''f'' then Some (CChar (CHR 0x0C))
      else if e = CHR ''r'' then Some (CChar (CHR 0x0D))
      else if e = CHR ''0'' then Some (CChar (CHR 0x00))
      else if is_digit e \<or> e \<in> set ''cxu'' then None
      else Some (CChar e))"

text \<open>
  The helpers below return, beside their result, how many characters they used beyond
  the one that started them.
\<close>

definition class_atom :: "string \<Rightarrow> (citem \<times> nat) option" where
  "class_atom s =
     (case s of
        [] \<Rightarrow> None
      | c # r \<Rightarrow>
          if c = bslash then
            (case r of
               [] \<Rightarrow> None
             | e # r' \<Rightarrow>
                 if e = CHR ''0'' \<and> (case r' of [] \<Rightarrow> False | d # r'' \<Rightarrow> is_digit d) then None
                 else map_option (\<lambda>i. (i, 1)) (class_escape e))
          else Some (CChar c, 0))"

function class_items :: "string \<Rightarrow> citem list \<Rightarrow> nat \<Rightarrow> (citem list \<times> nat) option" where
  "class_items [] acc k = None"
| "class_items (c # r) acc k =
     (if c = CHR '']'' then Some (rev acc, Suc k)
      else
        (case class_atom (c # r) of
           None \<Rightarrow> None
         | Some (a, ka) \<Rightarrow>
             (case drop ka r of
                [] \<Rightarrow> None
              | [d] \<Rightarrow> class_items [d] (a # acc) (k + ka + 1)
              | d # e # r2 \<Rightarrow>
                  if d = CHR ''-'' \<and> e \<noteq> CHR '']'' then
                    (case class_atom (e # r2) of
                       None \<Rightarrow> None
                     | Some (b, kb) \<Rightarrow>
                         (case a of
                            CChar lo \<Rightarrow>
                              (case b of
                                 CChar hi \<Rightarrow>
                                   if \<not> char_le lo hi then None
                                   else class_items (drop kb r2) (CRange lo hi # acc) (k + ka + kb + 3)
                               | _ \<Rightarrow>
                                   class_items (drop kb r2) (b # CChar (CHR ''-'') # a # acc)
                                     (k + ka + kb + 3))
                          | _ \<Rightarrow>
                              class_items (drop kb r2) (b # CChar (CHR ''-'') # a # acc)
                                (k + ka + kb + 3)))
                  else class_items (d # e # r2) (a # acc) (k + ka + 1))))"
  by pat_completeness auto
termination
proof -
  have shorter: "length r' < length r" if "drop k r = d # r'" for k d and r r' :: string
    using that length_drop [of k r] by simp
  show ?thesis
    by (relation "measure (\<lambda>(s, acc, k). length s)") (auto dest!: shorter)
qed

text \<open>A class, read after its opening bracket.\<close>

definition parse_class :: "string \<Rightarrow> (rx \<times> nat) option" where
  "parse_class r =
     (case r of
        [] \<Rightarrow> None
      | c # r' \<Rightarrow>
          if c = CHR ''^'' then
            (case class_items r' [] 0 of
               None \<Rightarrow> None
             | Some (items, k) \<Rightarrow> Some (RSet True items, Suc k))
          else
            (case class_items r [] 0 of
               None \<Rightarrow> None
             | Some (items, k) \<Rightarrow> Some (RSet False items, k)))"

text \<open>
  A braced quantifier, read after its opening brace: \<open>{n}\<close>, \<open>{n,}\<close> or \<open>{n,m}\<close>;
  \<open>None\<close> when the text is none of these (the brace is then an ordinary character).
\<close>

definition parse_brace :: "string \<Rightarrow> ((nat \<times> nat option) \<times> nat) option" where
  "parse_brace r =
     (case takeWhile is_digit r of
        [] \<Rightarrow> None
      | d # ds \<Rightarrow>
          (case dropWhile is_digit r of
             [] \<Rightarrow> None
           | c # r2 \<Rightarrow>
               if c = CHR ''}'' then
                 Some ((digits_value (d # ds), Some (digits_value (d # ds))), length (d # ds) + 1)
               else if c = CHR '','' then
                 (case dropWhile is_digit r2 of
                    [] \<Rightarrow> None
                  | e # r3 \<Rightarrow>
                      if e = CHR ''}'' then
                        Some ((digits_value (d # ds),
                               (case takeWhile is_digit r2 of
                                  [] \<Rightarrow> None
                                | d2 # ds2 \<Rightarrow> Some (digits_value (d2 # ds2)))),
                              length (d # ds) + length (takeWhile is_digit r2) + 2)
                      else None)
               else None))"

definition add_atom :: "rx \<Rightarrow> qstate \<Rightarrow> nat \<Rightarrow> pstate \<Rightarrow> (pstate \<times> nat) option" where
  "add_atom a q used st =
     (case st of (fs, q0, n, mr) \<Rightarrow>
        (case fs of
           [] \<Rightarrow> None
         | f # fs' \<Rightarrow>
             (case f of (k, alts, cur) \<Rightarrow> Some (((k, alts, a # cur) # fs', q, n, mr), used))))"

definition quantify :: "nat \<Rightarrow> nat option \<Rightarrow> nat \<Rightarrow> pstate \<Rightarrow> (pstate \<times> nat) option" where
  "quantify mn mx used st =
     (case st of (fs, q, n, mr) \<Rightarrow>
        if q \<noteq> QOk then None
        else
          (case fs of
             [] \<Rightarrow> None
           | f # fs' \<Rightarrow>
               (case f of (k, alts, cur) \<Rightarrow>
                  (case cur of
                     [] \<Rightarrow> None
                   | a # cur' \<Rightarrow>
                       Some (((k, alts, RRep a mn mx True # cur') # fs', QDone, n, mr), used)))))"

definition make_lazy :: "pstate \<Rightarrow> (pstate \<times> nat) option" where
  "make_lazy st =
     (case st of (fs, q, n, mr) \<Rightarrow>
        (case fs of
           [] \<Rightarrow> None
         | f # fs' \<Rightarrow>
             (case f of (k, alts, cur) \<Rightarrow>
                (case cur of
                   [] \<Rightarrow> None
                 | a # cur' \<Rightarrow>
                     (case a of
                        RRep b mn mx greedy \<Rightarrow>
                          Some (((k, alts, RRep b mn mx False # cur') # fs', QNo, n, mr), 0)
                      | _ \<Rightarrow> None)))))"

definition open_group :: "gkind \<Rightarrow> nat \<Rightarrow> nat \<Rightarrow> pstate \<Rightarrow> (pstate \<times> nat) option" where
  "open_group k n' used st =
     (case st of (fs, q, n, mr) \<Rightarrow> Some (((k, [], []) # fs, QNo, n', mr), used))"

definition close_group :: "pstate \<Rightarrow> (pstate \<times> nat) option" where
  "close_group st =
     (case st of (fs, q, n, mr) \<Rightarrow>
        (case fs of
           [] \<Rightarrow> None
         | f # fs1 \<Rightarrow>
             (case fs1 of
                [] \<Rightarrow> None
              | f2 # fs' \<Rightarrow>
                  (case f of (k, alts, cur) \<Rightarrow>
                     (case f2 of (k2, alts2, cur2) \<Rightarrow>
                        Some (((k2, alts2, wrap_group k (close_frame alts cur) # cur2) # fs',
                               QOk, n, mr), 0))))))"

definition next_alternative :: "pstate \<Rightarrow> (pstate \<times> nat) option" where
  "next_alternative st =
     (case st of (fs, q, n, mr) \<Rightarrow>
        (case fs of
           [] \<Rightarrow> None
         | f # fs' \<Rightarrow>
             (case f of (k, alts, cur) \<Rightarrow>
                Some (((k, mk_seq (rev cur) # alts, []) # fs', QNo, n, mr), 0))))"

text \<open>An escape outside a class, read after the backslash.\<close>

definition parse_escape :: "pstate \<Rightarrow> string \<Rightarrow> (pstate \<times> nat) option" where
  "parse_escape st r =
     (case r of
        [] \<Rightarrow> None
      | e # r' \<Rightarrow>
          if e = CHR ''b'' then add_atom (RWordB False) QNo 1 st
          else if e = CHR ''B'' then add_atom (RWordB True) QNo 1 st
          else if e = CHR ''0'' then
            (if (case r' of [] \<Rightarrow> False | d # r'' \<Rightarrow> is_digit d) then None
             else add_atom (RChar (CHR 0x00)) QOk 1 st)
          else if is_digit e then
            (case st of (fs, q, n, mr) \<Rightarrow>
               add_atom (RBackref (digits_value (takeWhile is_digit r))) QOk
                 (length (takeWhile is_digit r))
                 (fs, q, n, max mr (digits_value (takeWhile is_digit r))))
          else
            (case class_escape e of
               None \<Rightarrow> None
             | Some i \<Rightarrow>
                 (case i of
                    CChar ch \<Rightarrow> add_atom (RChar ch) QOk 1 st
                  | _ \<Rightarrow> add_atom (RSet False [i]) QOk 1 st)))"

text \<open>
  One step: the state after the character \<open>c\<close> (with \<open>r\<close> behind it), and how many
  characters of \<open>r\<close> the step used; \<open>None\<close> is a syntax error.
\<close>

definition rx_step :: "pstate \<Rightarrow> char \<Rightarrow> string \<Rightarrow> (pstate \<times> nat) option" where
  "rx_step st c r =
     (case st of (fs, q, n, mr) \<Rightarrow>
        if c = CHR ''('' then
          (if prefix ''?:'' r then open_group GNon n 2 st
           else if prefix ''?='' r then open_group (GLook False) n 2 st
           else if prefix ''?!'' r then open_group (GLook True) n 2 st
           else if prefix ''?'' r then None
           else open_group (GCap (Suc n)) (Suc n) 0 st)
        else if c = CHR '')'' then close_group st
        else if c = CHR ''|'' then next_alternative st
        else if c = CHR ''*'' then quantify 0 None 0 st
        else if c = CHR ''+'' then quantify 1 None 0 st
        else if c = CHR ''?'' then (if q = QDone then make_lazy st else quantify 0 (Some 1) 0 st)
        else if c = CHR ''{'' then
          (case parse_brace r of
             None \<Rightarrow> add_atom (RChar c) QOk 0 st
           | Some (b, k) \<Rightarrow>
               (case b of (mn, mx) \<Rightarrow>
                  if (case mx of None \<Rightarrow> False | Some m \<Rightarrow> m < mn) then None
                  else quantify mn mx k st))
        else if c = CHR ''['' then
          (case parse_class r of None \<Rightarrow> None | Some (a, k) \<Rightarrow> add_atom a QOk k st)
        else if c = bslash then parse_escape st r
        else if c = CHR ''^'' then add_atom RBol QNo 0 st
        else if c = CHR ''$'' then add_atom REol QNo 0 st
        else if c = CHR ''.'' then add_atom RAny QOk 0 st
        else add_atom (RChar c) QOk 0 st)"

fun rx_parse_loop :: "pstate \<Rightarrow> string \<Rightarrow> pstate option" where
  "rx_parse_loop st [] = Some st"
| "rx_parse_loop st (c # r) =
     (case rx_step st c r of
        None \<Rightarrow> None
      | Some (st', k) \<Rightarrow> rx_parse_loop st' (drop k r))"

text \<open>
  The whole pattern: its tree and the number of its capturing groups. A group left
  open is an error; a back-reference beyond the last group (an octal escape in
  JavaScript) is outside the model.
\<close>

definition rx_parse :: "string \<Rightarrow> (rx \<times> nat) option" where
  "rx_parse s =
     (case rx_parse_loop ([(GTop, [], [])], QNo, 0, 0) s of
        None \<Rightarrow> None
      | Some st \<Rightarrow>
          (case st of (fs, q, n, mr) \<Rightarrow>
             (case fs of
                [] \<Rightarrow> None
              | f # fs' \<Rightarrow>
                  (case f of (k, alts, cur) \<Rightarrow>
                     if fs' = [] \<and> mr \<le> n then Some (close_frame alts cur, n) else None))))"

subsection \<open>The RegExp object and the string methods that take one\<close>

record regexp =
  re_pattern :: string
  re_ignoreCase :: bool
  re_global :: bool
  re_tree :: rx
  re_groups :: nat

text \<open>\<open>new RegExp(pattern, flags)\<close>; \<open>None\<close> when the constructor throws.\<close>

definition RegExp_new :: "string \<Rightarrow> string \<Rightarrow> regexp option" where
  "RegExp_new pattern flags =
     (if flags \<noteq> [] \<and> flags \<noteq> ''i'' \<and> flags \<noteq> ''g'' \<and> flags \<noteq> ''gi'' \<and> flags \<noteq> ''ig''
      then None
      else
        (case rx_parse pattern of
           None \<Rightarrow> None
         | Some (a, n) \<Rightarrow>
             Some \<lparr>re_pattern = pattern, re_ignoreCase = (CHR ''i'' \<in> set flags),
                   re_global = (CHR ''g'' \<in> set flags), re_tree = a, re_groups = n\<rparr>))"

text \<open>
  The \<open>source\<close> property: the pattern with every slash that is neither escaped nor
  inside a class escaped, and \<open>(?:)\<close> for the empty pattern.
\<close>

fun escape_slashes :: "bool \<Rightarrow> string \<Rightarrow> string" where
  "escape_slashes in_class [] = []"
| "escape_slashes in_class [c] = (if c = CHR ''/'' \<and> \<not> in_class then [bslash, c] else [c])"
| "escape_slashes in_class (c # d # r) =
     (if c = bslash then c # d # escape_slashes in_class r
      else if c = CHR ''/'' \<and> \<not> in_class then bslash # c # escape_slashes in_class (d # r)
      else if c = CHR ''['' then c # escape_slashes True (d # r)
      else if c = CHR '']'' then c # escape_slashes False (d # r)
      else c # escape_slashes in_class (d # r))"

definition regexp_source :: "regexp \<Rightarrow> string" where
  "regexp_source re = (if re_pattern re = [] then ''(?:)'' else escape_slashes False (re_pattern re))"

text \<open>
  The leftmost match: the first start position at which the pattern matches, with the
  input left at that position and the state at the end of the match.
\<close>

fun exec_from :: "matcher \<Rightarrow> string option list \<Rightarrow> char option \<Rightarrow> string \<Rightarrow> (string \<times> mstate) option" where
  "exec_from m caps p [] =
     (case m (p, [], caps) Some of
        None \<Rightarrow> None
      | Some y \<Rightarrow> Some ([], y))"
| "exec_from m caps p (ch # r) =
     (case m (p, ch # r, caps) Some of
        None \<Rightarrow> exec_from m caps (Some ch) r
      | Some y \<Rightarrow> Some (ch # r, y))"

definition regexp_matcher :: "regexp \<Rightarrow> matcher" where
  "regexp_matcher re = rx_m (re_tree re) (re_ignoreCase re)"

definition no_captures :: "regexp \<Rightarrow> string option list" where
  "no_captures re = replicate (Suc (re_groups re)) None"

text \<open>
  \<open>re.exec(s)\<close> for a regexp without the flag \<open>g\<close>: the text before the match, the
  text after it, and the match array (the whole match at index 0, then the groups,
  \<open>None\<close> for a group that took no part).
\<close>

definition regexp_exec :: "regexp \<Rightarrow> string \<Rightarrow> (string \<times> string \<times> string option list) option" where
  "regexp_exec re s =
     (case exec_from (regexp_matcher re) (no_captures re) None s of
        None \<Rightarrow> None
      | Some (r, y) \<Rightarrow>
          (case y of (p', r', caps) \<Rightarrow>
             Some (take (length s - length r) s, r',
                   caps[0 := Some (take (length r - length r') r)])))"

definition regexp_test :: "regexp \<Rightarrow> string \<Rightarrow> bool" where
  "regexp_test re s = (regexp_exec re s \<noteq> None)"

definition str_match :: "string \<Rightarrow> regexp \<Rightarrow> string option list option" where
  "str_match s re = map_option (\<lambda>(pre, post, m). m) (regexp_exec re s)"

text \<open>An entry of a match array read as a string (\<open>undefined\<close> reads as empty).\<close>

definition match_group :: "string option list \<Rightarrow> nat \<Rightarrow> string" where
  "match_group m k = (if k < length m then (case m ! k of None \<Rightarrow> [] | Some g \<Rightarrow> g) else [])"

text \<open>
  \<open>s.match(re)\<close> for a regexp with the flag \<open>g\<close>: every match from left to right
  (an empty match moves on by one character), \<open>None\<close> when there is none. Each round
  but the last uses up input, so the length of the input plus one is fuel enough.
\<close>

primrec match_all_from :: "nat \<Rightarrow> matcher \<Rightarrow> string option list \<Rightarrow> char option \<Rightarrow> string \<Rightarrow> string list" where
  "match_all_from 0 m caps p r = []"
| "match_all_from (Suc fuel) m caps p r =
     (case exec_from m caps p r of
        None \<Rightarrow> []
      | Some (r0, y) \<Rightarrow>
          (case y of (p', r', caps') \<Rightarrow>
             take (length r0 - length r') r0 #
               (if length r0 = length r' then
                  (case r' of [] \<Rightarrow> [] | c # r'' \<Rightarrow> match_all_from fuel m caps (Some c) r'')
                else match_all_from fuel m caps p' r')))"

definition str_match_all :: "string \<Rightarrow> regexp \<Rightarrow> string list option" where
  "str_match_all s re =
     (case match_all_from (Suc (length s)) (regexp_matcher re) (no_captures re) None s of
        [] \<Rightarrow> None
      | m # ms \<Rightarrow> Some (m # ms))"

text \<open>
  \<open>s.replace(re, repl)\<close> for a regexp without groups and without the flag \<open>g\<close>, and
  a string \<open>repl\<close>.
\<close>

definition replace_rx :: "string \<Rightarrow> regexp \<Rightarrow> string \<Rightarrow> string" where
  "replace_rx s re repl =
     (case regexp_exec re s of
        None \<Rightarrow> s
      | Some (pre, post, m) \<Rightarrow>
          pre @ get_substitution (match_group m 0) pre post repl @ post)"

text \<open>
  A regular-expression literal of the source, or \<open>new RegExp\<close> outside any \<open>try\<close>
  on a pattern that is a constant or an escaped string: the pattern is well-formed
  (the lemmas \<open>source_patterns_compile\<close> and \<open>escaped_pattern_compiles\<close> below), so
  the fallback, a regexp that matches nothing, is never taken.
\<close>

definition regex_literal :: "string \<Rightarrow> string \<Rightarrow> regexp" where
  "regex_literal p flags =
     (case RegExp_new p flags of
        Some re \<Rightarrow> re
      | None \<Rightarrow> \<lparr>re_pattern = p, re_ignoreCase = False, re_global = False,
                  re_tree = RSet False [], re_groups = 0\<rparr>)"

section \<open>The Bash hook: bash-tool-damage-control.ts\<close>

subsection \<open>Glob pattern utilities\<close>

definition isGlobPattern :: "string \<Rightarrow> bool" where
  "isGlobPattern p = (CHR ''*'' \<in> set p \<or> CHR ''?'' \<in> set p \<or> CHR ''['' \<in> set p)"

definition globToRegex :: "string \<Rightarrow> string" where
  "globToRegex globPattern =
     concat (map (\<lambda>c.
       if c = CHR ''*'' then ''[^'' @ bs ''s/]*''
       else if c = CHR ''?'' then ''[^'' @ bs ''s/]''
       else if c \<in> set (''.+^${}()|[]'' @ [bslash]) then [bslash, c]
       else [c]) globPattern)"

text \<open>\<open>str.replace(/[.*+?^${}()|[\]\\]/g, "\\$&")\<close>: a backslash before each of them.\<close>

definition escapeRegex :: "string \<Rightarrow> string" where
  "escapeRegex str =
     concat (map (\<lambda>c. if c \<in> set (''.*+?^${}()|[]'' @ [bslash]) then [bslash, c] else [c]) str)"

text \<open>The characters \<open>escapeRegex\<close> puts a backslash before.\<close>

definition regex_specials :: string where
  "regex_specials = ''.*+?^${}()|[]'' @ [bslash]"

subsection \<open>Operation patterns\<close>

type_synonym PatternTuple = "string \<times> string"

definition WRITE_PATTERNS :: "PatternTuple list" where
  "WRITE_PATTERNS =
     [(''>'' @ bs ''s*{path}'', ''write''),
      (bs ''btee'' @ bs ''s+(?!.*-a).*{path}'', ''write'')]"

definition APPEND_PATTERNS :: "PatternTuple list" where
  "APPEND_PATTERNS =
     [(''>>'' @ bs ''s*{path}'', ''append''),
      (bs ''btee'' @ bs ''s+-a'' @ bs ''s+.*{path}'', ''append''),
      (bs ''btee'' @ bs ''s+.*-a.*{path}'', ''append'')]"

definition EDIT_PATTERNS :: "PatternTuple list" where
  "EDIT_PATTERNS =
     [(bs ''bsed'' @ bs ''s+-i.*{path}'', ''edit''),
      (bs ''bperl'' @ bs ''s+-[^'' @ bs ''s]*i.*{path}'', ''edit''),
      (bs ''bawk'' @ bs ''s+-i'' @ bs ''s+inplace.*{path}'', ''edit'')]"

definition MOVE_COPY_PATTERNS :: "PatternTuple list" where
  "MOVE_COPY_PATTERNS =
     [(bs ''bmv'' @ bs ''s+.*'' @ bs ''s+{path}'', ''move''),
      (bs ''bcp'' @ bs ''s+.*'' @ bs ''s+{path}'', ''copy'')]"

definition DELETE_PATTERNS :: "PatternTuple list" where
  "DELETE_PATTERNS =
     [(bs ''brm'' @ bs ''s+.*{path}'', ''delete''),
      (bs ''bunlink'' @ bs ''s+.*{path}'', ''delete''),
      (bs ''brmdir'' @ bs ''s+.*{path}'', ''delete''),
      (bs ''bshred'' @ bs ''s+.*{path}'', ''delete'')]"

definition PERMISSION_PATTERNS :: "PatternTuple list" where
  "PERMISSION_PATTERNS =
     [(bs ''bchmod'' @ bs ''s+.*{path}'', ''chmod''),
      (bs ''bchown'' @ bs ''s+.*{path}'', ''chown''),
      (bs ''bchgrp'' @ bs ''s+.*{path}'', ''chgrp'')]"

definition TRUNCATE_PATTERNS :: "PatternTuple list" where
  "TRUNCATE_PATTERNS =
     [(bs ''btruncate'' @ bs ''s+.*{path}'', ''truncate''),
      ('':'' @ bs ''s*>'' @ bs ''s*{path}'', ''truncate'')]"

definition READ_ONLY_BLOCKED :: "PatternTuple list" where
  "READ_ONLY_BLOCKED =
     WRITE_PATTERNS @ APPEND_PATTERNS @ EDIT_PATTERNS @ MOVE_COPY_PATTERNS @ DELETE_PATTERNS
       @ PERMISSION_PATTERNS @ TRUNCATE_PATTERNS"

definition NO_DELETE_BLOCKED :: "PatternTuple list" where
  "NO_DELETE_BLOCKED = DELETE_PATTERNS"

subsection \<open>Shell wrapper unwrapping\<close>

definition quotes :: string where
  "quotes = [CHR 0x22, CHR 0x27]"

text \<open>
  The three expressions of \<open>extractSystemCall\<close>:
  \<^verbatim>\<open>os\.system\s*\(\s*["']([^"']+)["']\s*\)\<close>,
  \<^verbatim>\<open>subprocess\.(?:run|call|check_call|check_output|Popen)\s*\(\s*["']([^"']+)["']\s*\)\<close>
  and
  \<^verbatim>\<open>subprocess\.(?:run|call|check_call|check_output|Popen)\s*\(\s*\[([^\]]+)\]\<close>,
  and the one that takes the list apart, \<^verbatim>\<open>["']([^"']+)["']\<close> with the flag \<open>g\<close>.
\<close>

definition quoted_argument :: string where
  "quoted_argument = ''['' @ quotes @ '']([^'' @ quotes @ '']+)['' @ quotes @ '']''"

definition subprocess_call :: string where
  "subprocess_call =
     ''subprocess'' @ bs ''.(?:run|call|check_call|check_output|Popen)'' @ bs ''s*'' @ bs ''('' @ bs ''s*''"

definition systemPatterns :: "string list" where
  "systemPatterns =
     [''os'' @ bs ''.system'' @ bs ''s*'' @ bs ''('' @ bs ''s*'' @ quoted_argument @ bs ''s*'' @ bs '')'',
      subprocess_call @ quoted_argument @ bs ''s*'' @ bs '')'']"

definition listPattern :: string where
  "listPattern = subprocess_call @ bs ''[([^'' @ bs '']]+)'' @ bs '']''"

text \<open>The first pattern of a list that matches, with its match array.\<close>

fun first_match :: "string list \<Rightarrow> string \<Rightarrow> string option list option" where
  "first_match [] s = None"
| "first_match (p # ps) s =
     (case str_match s (regex_literal p []) of
        Some m \<Rightarrow> Some m
      | None \<Rightarrow> first_match ps s)"

definition extractSystemCall :: "string \<Rightarrow> string option" where
  "extractSystemCall pythonCode =
     (if pythonCode = [] then None
      else
        (case first_match systemPatterns pythonCode of
           Some m \<Rightarrow> Some (match_group m 1)
         | None \<Rightarrow>
             (case str_match pythonCode (regex_literal listPattern []) of
                None \<Rightarrow> None
              | Some m \<Rightarrow>
                  (case str_match_all (match_group m 1) (regex_literal quoted_argument ''g'') of
                     None \<Rightarrow> None
                   | Some parts \<Rightarrow> Some (join '' '' (map (\<lambda>p. butlast (tl p)) parts))))))"

definition shellWrappers :: "string list" where
  "shellWrappers = [''bash'', ''sh'', ''zsh'', ''ksh'', ''dash'']"

definition pythonWrappers :: "string list" where
  "pythonWrappers = [''python'', ''python2'', ''python3'']"

text \<open>\<^verbatim>\<open>\b${shell}\s+-c\s+(["'])(.+?)\1\<close>, for a shell or a Python command.\<close>

definition wrapperPattern :: "string \<Rightarrow> string" where
  "wrapperPattern shell =
     bs ''b'' @ shell @ bs ''s+-c'' @ bs ''s+(['' @ quotes @ ''])(.+?)'' @ bs ''1''"

text \<open>\<^verbatim>\<open>\benv\s+(?:[A-Z_][A-Z0-9_]*=[^\s]+\s+)*(.+)\<close>\<close>

definition envPattern :: string where
  "envPattern = bs ''benv'' @ bs ''s+(?:[A-Z_][A-Z0-9_]*=[^'' @ bs ''s]+'' @ bs ''s+)*(.+)''"

function unwrapCommand :: "string \<Rightarrow> nat \<Rightarrow> string \<times> bool" where
  "unwrapCommand command depth =
     (if depth \<ge> 5 then (command, depth > 0)
      else if command = [] \<or> trim command = [] then (command, False)
      else
        (case first_match (map wrapperPattern shellWrappers) (trim command) of
           Some m \<Rightarrow> unwrapCommand (match_group m 2) (depth + 1)
         | None \<Rightarrow>
             (case first_match (map wrapperPattern pythonWrappers) (trim command) of
                Some m \<Rightarrow>
                  (case extractSystemCall (match_group m 2) of
                     Some extracted \<Rightarrow>
                       if extracted \<noteq> [] then unwrapCommand extracted (depth + 1)
                       else unwrapCommand (match_group m 2) (depth + 1)
                   | None \<Rightarrow> unwrapCommand (match_group m 2) (depth + 1))
              | None \<Rightarrow>
                  (case str_match (trim command) (regex_literal envPattern []) of
                     Some m \<Rightarrow> unwrapCommand (match_group m 1) (depth + 1)
                   | None \<Rightarrow> (trim command, depth > 0)))))"
  by pat_completeness auto
termination
  by (relation "measure (\<lambda>(command, depth). 5 - depth)") auto

declare unwrapCommand.simps [simp del]

subsection \<open>Git semantic analysis\<close>

text \<open>
  A short-flag cluster: \<open>arg.startsWith("-") && !arg.startsWith("--") && arg.length > 1\<close>,
  holding the letter \<open>c\<close> after its dash.
\<close>

definition shortFlagWith :: "char \<Rightarrow> string \<Rightarrow> bool" where
  "shortFlagWith c arg =
     (startsWith arg ''-'' \<and> \<not> startsWith arg ''--'' \<and> length arg > 1 \<and> c \<in> set (drop 1 arg))"

definition analyzeCheckout :: "string list \<Rightarrow> (bool \<times> string) option" where
  "analyzeCheckout args =
     (if ''-b'' \<in> set args \<or> ''--branch'' \<in> set args then Some (False, [])
      else if ''--'' \<in> set args
              \<and> length (takeWhile (\<lambda>a. a \<noteq> ''--'') args) < length args - 1
      then Some (True, ''git checkout with -- discards uncommitted changes'')
      else if ''--force'' \<in> set args \<or> ''-f'' \<in> set args
      then Some (True, ''git checkout --force discards uncommitted changes'')
      else if list_ex (shortFlagWith (CHR ''f'')) args
      then Some (True, ''git checkout -f discards uncommitted changes'')
      else None)"

definition analyzePush :: "string list \<Rightarrow> (bool \<times> string) option" where
  "analyzePush args =
     (if str_includes (join '' '' args) ''--force-with-lease'' then Some (False, [])
      else if ''--force'' \<in> set args
      then Some (True, ''git push --force can overwrite remote history without safety checks'')
      else if ''-f'' \<in> set args
      then Some (True, ''git push -f can overwrite remote history without safety checks'')
      else if list_ex (shortFlagWith (CHR ''f'')) args
      then Some (True, ''git push -f can overwrite remote history without safety checks'')
      else None)"

definition analyzeReset :: "string list \<Rightarrow> (bool \<times> string) option" where
  "analyzeReset args =
     (if ''--soft'' \<in> set args \<or> ''--mixed'' \<in> set args then Some (False, [])
      else if ''--hard'' \<in> set args
      then Some (True, ''git reset --hard permanently discards uncommitted changes'')
      else None)"

definition analyzeClean :: "string list \<Rightarrow> (bool \<times> string) option" where
  "analyzeClean args =
     (if ''-f'' \<in> set args \<or> ''-d'' \<in> set args
      then Some (True, ''git clean removes untracked files permanently'')
      else if list_ex (\<lambda>arg. shortFlagWith (CHR ''f'') arg \<or> shortFlagWith (CHR ''d'') arg) args
      then Some (True, ''git clean removes untracked files permanently'')
      else None)"

text \<open>
  The four blocks of \<open>analyzeGitCommand\<close> follow one another in the source; a block
  that does not return (\<open>None\<close> above) falls through to the next, and the function
  ends with \<open>[false, ""]\<close>.
\<close>

fun first_return :: "(bool \<times> string) option list \<Rightarrow> bool \<times> string" where
  "first_return [] = (False, [])"
| "first_return (None # rs) = first_return rs"
| "first_return (Some r # rs) = r"

definition analyzeGitCommand :: "string \<Rightarrow> bool \<times> string" where
  "analyzeGitCommand command =
     (if command = [] \<or> trim command = [] then (False, [])
      else if \<not> startsWith (trim command) ''git '' then (False, [])
      else if length (split_ws (trim command)) < 2 then (False, [])
      else
        (let subcommand = split_ws (trim command) ! 1;
             args = drop 2 (split_ws (trim command))
         in first_return
              [if subcommand = ''checkout'' then analyzeCheckout args else None,
               if subcommand = ''push'' then analyzePush args else None,
               if subcommand = ''reset'' then analyzeReset args else None,
               if subcommand = ''clean'' then analyzeClean args else None]))"

subsection \<open>Types and configuration\<close>

record Pattern =
  pattern :: string
  reason :: string
  ask :: bool

record CompiledPattern = Pattern +
  compiled :: regexp

record PathObject =
  original :: string
  isGlob :: bool
  globRegex :: "regexp option"
  expanded :: "string option"
  escapedExpanded :: "string option"
  escapedOriginal :: "string option"

text \<open>
  A context block of the configuration (\<open>documentation\<close> or \<open>commit_message\<close>); a
  list the file leaves out is empty, as the source reads it (\<open>|| []\<close>).
\<close>

record ContextConfig =
  enabled :: bool
  file_extensions :: "string list"
  command_patterns :: "string list"
  relaxed_checks :: "string list"

record Contexts =
  documentation :: "ContextConfig option"
  commit_message :: "ContextConfig option"

record Config =
  bashToolPatterns :: "Pattern list"
  zeroAccessPaths :: "string list"
  readOnlyPaths :: "string list"
  noDeletePaths :: "string list"
  contexts :: "Contexts option"

record CompiledConfig = Config +
  bashToolPatterns_compiled :: "CompiledPattern list"
  zeroAccessPaths_compiled :: "PathObject list"
  readOnlyPaths_compiled :: "PathObject list"
  noDeletePaths_compiled :: "PathObject list"

record ToolInput =
  command :: "string option"
  file_path :: "string option"

record HookInput =
  tool_name :: string
  tool_input :: "ToolInput option"

text \<open>
  The result of a path check, \<open>{blocked, reason}\<close>, and the result of
  \<open>checkCommand\<close>, which has these two fields and four more.
\<close>

record PathResult =
  blocked :: bool
  reason :: string

record CheckResult = PathResult +
  ask :: bool
  patternMatched :: string
  wasUnwrapped :: bool
  semanticMatch :: bool

text \<open>
  \<open>compileRegexPatterns\<close>: the loop over the patterns with its index; beside the
  compiled patterns it returns the warnings written to the error stream (the index and
  the pattern of each expression that did not compile).
\<close>

fun compileRegexPatterns_from :: "nat \<Rightarrow> Pattern list \<Rightarrow> CompiledPattern list \<times> (nat \<times> string) list" where
  "compileRegexPatterns_from idx [] = ([], [])"
| "compileRegexPatterns_from idx (item # items) =
     (case compileRegexPatterns_from (Suc idx) items of (cs, ws) \<Rightarrow>
        if pattern item = [] then (cs, ws)
        else
          (case RegExp_new (pattern item) ''i'' of
             Some compiledRegex \<Rightarrow> (Pattern.extend item (CompiledPattern.fields compiledRegex) # cs, ws)
           | None \<Rightarrow> (cs, (idx, pattern item) # ws)))"

definition compileRegexPatterns :: "Pattern list \<Rightarrow> CompiledPattern list" where
  "compileRegexPatterns patterns = fst (compileRegexPatterns_from 0 patterns)"

definition compileRegexPatterns_warnings :: "Pattern list \<Rightarrow> (nat \<times> string) list" where
  "compileRegexPatterns_warnings patterns = snd (compileRegexPatterns_from 0 patterns)"

text \<open>\<open>path.replace(/^~/, homedir())\<close>; the home directory is a parameter.\<close>

definition expand_home :: "string \<Rightarrow> string \<Rightarrow> string" where
  "expand_home home path = replace_rx path (regex_literal ''^~'' []) home"

fun preprocessPathList :: "string \<Rightarrow> string list \<Rightarrow> PathObject list" where
  "preprocessPathList home [] = []"
| "preprocessPathList home (path # paths) =
     (if path = [] then preprocessPathList home paths
      else if isGlobPattern path then
        (case RegExp_new (globToRegex path) ''i'' of
           None \<Rightarrow> preprocessPathList home paths
         | Some re \<Rightarrow>
             \<lparr>original = path, isGlob = True, globRegex = Some re, expanded = None,
              escapedExpanded = None, escapedOriginal = None\<rparr> # preprocessPathList home paths)
      else
        \<lparr>original = path, isGlob = False, globRegex = None,
         expanded = Some (expand_home home path),
         escapedExpanded = Some (escapeRegex (expand_home home path)),
         escapedOriginal = Some (escapeRegex path)\<rparr> # preprocessPathList home paths)"

definition compileConfig :: "string \<Rightarrow> Config \<Rightarrow> CompiledConfig" where
  "compileConfig home config =
     Config.extend config
       (CompiledConfig.fields
          (compileRegexPatterns (bashToolPatterns config))
          (preprocessPathList home (zeroAccessPaths config))
          (preprocessPathList home (readOnlyPaths config))
          (preprocessPathList home (noDeletePaths config)))"

text \<open>
  The warnings \<open>compileConfig\<close> writes to the error stream: one for each regular
  expression and each glob that does not compile (the text of the exception, which ends
  each line in the source, is left out).
\<close>

definition globWarnings :: "string list \<Rightarrow> string list" where
  "globWarnings paths =
     map (\<lambda>path. ''Warning: Invalid glob pattern: '' @ path)
       (filter (\<lambda>path. path \<noteq> [] \<and> isGlobPattern path \<and> RegExp_new (globToRegex path) ''i'' = None)
          paths)"

definition compileConfig_warnings :: "Config \<Rightarrow> string list" where
  "compileConfig_warnings config =
     map (\<lambda>(idx, p). ''Warning: Invalid regex pattern at index '' @ decimal idx @ '': '' @ p)
       (compileRegexPatterns_warnings (bashToolPatterns config))
     @ globWarnings (zeroAccessPaths config)
     @ globWarnings (readOnlyPaths config)
     @ globWarnings (noDeletePaths config)"

subsection \<open>Context detection\<close>

text \<open>\<open>new RegExp(pattern, "i").test(command)\<close> inside \<open>try\<close>: an exception is no match.\<close>

definition try_test :: "string \<Rightarrow> string \<Rightarrow> string \<Rightarrow> bool" where
  "try_test p flags s = (case RegExp_new p flags of None \<Rightarrow> False | Some re \<Rightarrow> regexp_test re s)"

definition string_or_empty :: "string option \<Rightarrow> string" where
  "string_or_empty s = (case s of None \<Rightarrow> [] | Some t \<Rightarrow> t)"

definition detectContext :: "string \<Rightarrow> ToolInput \<Rightarrow> 'a Config_scheme \<Rightarrow> string option" where
  "detectContext toolName toolInput config =
     (if (toolName = ''Edit'' \<or> toolName = ''Write'')
         \<and> (case contexts config of
               None \<Rightarrow> False
             | Some cs \<Rightarrow>
                 (case documentation cs of
                    None \<Rightarrow> False
                  | Some docCtx \<Rightarrow>
                      enabled docCtx
                      \<and> list_ex (\<lambda>ext. endsWith (string_or_empty (file_path toolInput)) ext)
                           (file_extensions docCtx)))
      then Some ''documentation''
      else if toolName = ''Bash''
         \<and> (case contexts config of
               None \<Rightarrow> False
             | Some cs \<Rightarrow>
                 (case commit_message cs of
                    None \<Rightarrow> False
                  | Some commitCtx \<Rightarrow>
                      enabled commitCtx
                      \<and> list_ex (\<lambda>p. try_test p ''i'' (string_or_empty (command toolInput)))
                           (command_patterns commitCtx)))
      then Some ''commit_message''
      else None)"

text \<open>
  \<open>context ? config.contexts?.[context] : null\<close> and the set of its
  \<open>relaxed_checks\<close>; only the two context names are keys of the configuration.
\<close>

definition contextConfig :: "'a Config_scheme \<Rightarrow> string option \<Rightarrow> ContextConfig option" where
  "contextConfig config ctx =
     (case ctx of
        None \<Rightarrow> None
      | Some name \<Rightarrow>
          (case contexts config of
             None \<Rightarrow> None
           | Some cs \<Rightarrow>
               if name = ''documentation'' then documentation cs
               else if name = ''commit_message'' then commit_message cs
               else None))"

definition relaxedChecks :: "'a Config_scheme \<Rightarrow> string option \<Rightarrow> string set" where
  "relaxedChecks config ctx =
     (case contextConfig config ctx of None \<Rightarrow> {} | Some cc \<Rightarrow> set (relaxed_checks cc))"

subsection \<open>Path checking\<close>

definition blockedOperation :: "string \<Rightarrow> string \<Rightarrow> string \<Rightarrow> PathResult" where
  "blockedOperation operation pathType pathStr =
     \<lparr>blocked = True,
      reason = ''Blocked: '' @ operation @ '' operation on '' @ pathType @ '' '' @ pathStr\<rparr>"

definition notBlocked :: PathResult where
  "notBlocked = \<lparr>blocked = False, reason = []\<rparr>"

text \<open>The loop of \<open>checkPathPatterns\<close> for a glob rule, over the operation templates.\<close>

fun checkGlobTemplates :: "string \<Rightarrow> string \<Rightarrow> string \<Rightarrow> string \<Rightarrow> PatternTuple list \<Rightarrow> PathResult" where
  "checkGlobTemplates cmd globRegexStr pathType pathStr [] = notBlocked"
| "checkGlobTemplates cmd globRegexStr pathType pathStr ((patternTemplate, operation) # patterns) =
     (if replace_str patternTemplate ''{path}'' [] \<noteq> []
         \<and> try_test (replace_str patternTemplate ''{path}'' [] @ globRegexStr) ''i'' cmd
      then blockedOperation operation pathType pathStr
      else checkGlobTemplates cmd globRegexStr pathType pathStr patterns)"

text \<open>
  The loop for a literal rule. Both expressions are built inside one \<open>try\<close>: when the
  first does not compile the second is not tried.
\<close>

fun checkLiteralTemplates :: "string \<Rightarrow> string \<Rightarrow> string \<Rightarrow> string \<Rightarrow> string \<Rightarrow> PatternTuple list \<Rightarrow> PathResult" where
  "checkLiteralTemplates cmd escExpanded escOriginal pathType pathStr [] = notBlocked"
| "checkLiteralTemplates cmd escExpanded escOriginal pathType pathStr ((patternTemplate, operation) # patterns) =
     (if (case RegExp_new (replace_str patternTemplate ''{path}'' escExpanded) [] of
            None \<Rightarrow> False
          | Some re1 \<Rightarrow>
              regexp_test re1 cmd
              \<or> (case RegExp_new (replace_str patternTemplate ''{path}'' escOriginal) [] of
                    None \<Rightarrow> False
                  | Some re2 \<Rightarrow> regexp_test re2 cmd))
      then blockedOperation operation pathType pathStr
      else checkLiteralTemplates cmd escExpanded escOriginal pathType pathStr patterns)"

definition checkPathPatterns :: "string \<Rightarrow> PathObject \<Rightarrow> PatternTuple list \<Rightarrow> string \<Rightarrow> PathResult" where
  "checkPathPatterns cmd pathObj patterns pathType =
     (if isGlob pathObj then
        (case globRegex pathObj of
           None \<Rightarrow> notBlocked
         | Some re \<Rightarrow> checkGlobTemplates cmd (regexp_source re) pathType (original pathObj) patterns)
      else if string_or_empty (escapedExpanded pathObj) = []
              \<or> string_or_empty (escapedOriginal pathObj) = []
      then notBlocked
      else checkLiteralTemplates cmd (string_or_empty (escapedExpanded pathObj))
             (string_or_empty (escapedOriginal pathObj)) pathType (original pathObj) patterns)"

subsection \<open>checkCommand\<close>

definition result :: "bool \<Rightarrow> bool \<Rightarrow> string \<Rightarrow> string \<Rightarrow> bool \<Rightarrow> bool \<Rightarrow> CheckResult" where
  "result b a r pm wu sm =
     \<lparr>blocked = b, reason = r, ask = a, patternMatched = pm, wasUnwrapped = wu, semanticMatch = sm\<rparr>"

text \<open>Step 3: the compiled patterns in order, with the index of each.\<close>

fun checkBashToolPatterns :: "string \<Rightarrow> bool \<Rightarrow> nat \<Rightarrow> CompiledPattern list \<Rightarrow> CheckResult option" where
  "checkBashToolPatterns cmd wu idx [] = None"
| "checkBashToolPatterns cmd wu idx (item # items) =
     (if regexp_test (compiled item) cmd then
        (if Pattern.ask item
         then Some (result False True (Pattern.reason item) (''yaml_pattern_'' @ decimal idx) wu False)
         else Some (result True False (''Blocked: '' @ Pattern.reason item)
                      (''yaml_pattern_'' @ decimal idx) wu False))
      else checkBashToolPatterns cmd wu (Suc idx) items)"

text \<open>
  Step 4: a zero-access rule against the command. A literal rule is tested in its
  expanded and in its original form; a file rule (no trailing slash) with the suffix
  \<^verbatim>\<open>(?![a-zA-Z0-9_.-])\<close>.
\<close>

definition zeroAccessSuffix :: string where
  "zeroAccessSuffix = ''(?![a-zA-Z0-9_.-])''"

definition zeroAccessLiteralMatch :: "string \<Rightarrow> PathObject \<Rightarrow> bool" where
  "zeroAccessLiteralMatch cmd pathObj =
     (if endsWith (original pathObj) ''/'' then
        (string_or_empty (escapedExpanded pathObj) \<noteq> []
           \<and> regexp_test (regex_literal (string_or_empty (escapedExpanded pathObj)) []) cmd)
        \<or> (string_or_empty (escapedOriginal pathObj) \<noteq> []
           \<and> regexp_test (regex_literal (string_or_empty (escapedOriginal pathObj)) []) cmd)
      else
        (string_or_empty (escapedExpanded pathObj) \<noteq> []
           \<and> regexp_test
                (regex_literal (string_or_empty (escapedExpanded pathObj) @ zeroAccessSuffix) []) cmd)
        \<or> (string_or_empty (escapedOriginal pathObj) \<noteq> []
           \<and> regexp_test
                (regex_literal (string_or_empty (escapedOriginal pathObj) @ zeroAccessSuffix) []) cmd))"

fun checkZeroAccess :: "string \<Rightarrow> bool \<Rightarrow> PathObject list \<Rightarrow> CheckResult option" where
  "checkZeroAccess cmd wu [] = None"
| "checkZeroAccess cmd wu (pathObj # paths) =
     (if isGlob pathObj then
        (if (case globRegex pathObj of None \<Rightarrow> False | Some re \<Rightarrow> regexp_test re cmd)
         then Some (result True False
                      (''Blocked: zero-access pattern '' @ original pathObj @ '' (no operations allowed)'')
                      ''zero_access_glob'' wu False)
         else checkZeroAccess cmd wu paths)
      else if zeroAccessLiteralMatch cmd pathObj
      then Some (result True False
                   (''Blocked: zero-access path '' @ original pathObj @ '' (no operations allowed)'')
                   ''zero_access_literal'' wu False)
      else checkZeroAccess cmd wu paths)"

text \<open>Steps 5 and 6: the rules of a tier against the templates of the tier.\<close>

fun checkTierPaths :: "string \<Rightarrow> bool \<Rightarrow> PatternTuple list \<Rightarrow> string \<Rightarrow> string \<Rightarrow> PathObject list \<Rightarrow> CheckResult option" where
  "checkTierPaths cmd wu patterns pathType pm [] = None"
| "checkTierPaths cmd wu patterns pathType pm (pathObj # paths) =
     (let res = checkPathPatterns cmd pathObj patterns pathType
      in if blocked res then Some (result True False (reason res) pm wu False)
         else checkTierPaths cmd wu patterns pathType pm paths)"

text \<open>Step 2: the semantic analysis of a git command.\<close>

definition checkSemanticGit :: "string \<Rightarrow> bool \<Rightarrow> CheckResult option" where
  "checkSemanticGit cmd wu =
     (case analyzeGitCommand cmd of (isDangerousGit, gitReason) \<Rightarrow>
        if isDangerousGit then Some (result False True gitReason ''semantic_git'' wu True)
        else None)"

text \<open>
  \<open>checkCommand\<close>: the command is unwrapped, then the five checks run in the order of
  the source, each unless the context relaxes it; the first that returns decides.
\<close>

definition checkCommand :: "string \<Rightarrow> CompiledConfig \<Rightarrow> string option \<Rightarrow> CheckResult" where
  "checkCommand cmd config ctx =
     (case unwrapCommand cmd 0 of (unwrappedCmd, wu) \<Rightarrow>
       (case (if ''semantic_git'' \<in> relaxedChecks config ctx then None
              else checkSemanticGit unwrappedCmd wu) of
          Some r \<Rightarrow> r
        | None \<Rightarrow>
       (case (if ''bashToolPatterns'' \<in> relaxedChecks config ctx then None
              else checkBashToolPatterns unwrappedCmd wu 0 (bashToolPatterns_compiled config)) of
          Some r \<Rightarrow> r
        | None \<Rightarrow>
       (case (if ''zeroAccessPaths'' \<in> relaxedChecks config ctx then None
              else checkZeroAccess unwrappedCmd wu (zeroAccessPaths_compiled config)) of
          Some r \<Rightarrow> r
        | None \<Rightarrow>
       (case (if ''readOnlyPaths'' \<in> relaxedChecks config ctx then None
              else checkTierPaths unwrappedCmd wu READ_ONLY_BLOCKED ''read-only path''
                     ''readonly_path'' (readOnlyPaths_compiled config)) of
          Some r \<Rightarrow> r
        | None \<Rightarrow>
       (case (if ''noDeletePaths'' \<in> relaxedChecks config ctx then None
              else checkTierPaths unwrappedCmd wu NO_DELETE_BLOCKED ''no-delete path''
                     ''nodelete_path'' (noDeletePaths_compiled config)) of
          Some r \<Rightarrow> r
        | None \<Rightarrow> result False False [] [] wu False))))))"

subsection \<open>main\<close>

text \<open>
  What \<open>main\<close> does beside ending the process: the calls of \<open>logDecision\<close> (tool,
  command, decision, reason, matched pattern, unwrapped, semantic match, context; how
  the entry is redacted, truncated and written is not modelled), the start of the log
  rotation, the lines written to the error stream, and the JSON object that asks for
  confirmation (its \<open>permissionDecisionReason\<close>).
\<close>

datatype effect =
    LogDecision string string string string string bool bool "string option"
  | SpawnLogRotation
  | ConsoleError string
  | PrintAskDecision string

fun split_on :: "char \<Rightarrow> string \<Rightarrow> string list" where
  "split_on c [] = [[]]"
| "split_on c (x # xs) =
     (if x = c then [] # split_on c xs
      else (case split_on c xs of [] \<Rightarrow> [[x]] | t # ts \<Rightarrow> (x # t) # ts))"

text \<open>\<open>isHookDisabled\<close>, from the value of \<open>CLAUDE_DISABLE_HOOKS\<close> (empty when unset).\<close>

definition isHookDisabled :: "string \<Rightarrow> bool" where
  "isHookDisabled disabledHooks = (''damage-control'' \<in> set (map trim (split_on (CHR '','') disabledHooks)))"

text \<open>
  \<open>main\<close> of the Bash hook, from the environment (the variable above and the home
  directory), the configuration as loaded and the input as parsed (\<open>None\<close>: the input is
  not JSON). It returns the effects in order and the exit code. The configuration is
  compiled, with its warnings, before the input is read.
\<close>

text \<open>\<open>input.tool_input?.command || ""\<close> and \<open>input.tool_input?.file_path || ""\<close>.\<close>

definition inputCommand :: "HookInput \<Rightarrow> string" where
  "inputCommand input =
     (case tool_input input of None \<Rightarrow> [] | Some toolInput \<Rightarrow> string_or_empty (command toolInput))"

definition inputFilePath :: "HookInput \<Rightarrow> string" where
  "inputFilePath input =
     (case tool_input input of None \<Rightarrow> [] | Some toolInput \<Rightarrow> string_or_empty (file_path toolInput))"

definition inputToolInput :: "HookInput \<Rightarrow> ToolInput" where
  "inputToolInput input =
     (case tool_input input of
        None \<Rightarrow> \<lparr>command = None, file_path = None\<rparr>
      | Some toolInput \<Rightarrow> toolInput)"

definition main :: "string \<Rightarrow> string \<Rightarrow> Config \<Rightarrow> HookInput option \<Rightarrow> effect list \<times> nat" where
  "main disabledHooks home config parsed =
     (if isHookDisabled disabledHooks then ([], 0)
      else
        (let warned = map ConsoleError (compileConfig_warnings config) in
         case parsed of
           None \<Rightarrow> (warned @ [ConsoleError ''Error: Invalid JSON input''], 1)
         | Some input \<Rightarrow>
             if tool_name input \<noteq> ''Bash'' then (warned, 0)
             else if inputCommand input = [] then (warned, 0)
             else
               (let cmd = inputCommand input;
                    ctx = detectContext (tool_name input) (inputToolInput input)
                            (compileConfig home config);
                    res = checkCommand cmd (compileConfig home config) ctx;
                    decision = (if blocked res then ''blocked''
                                else if ask res then ''ask'' else ''allowed'');
                    logged = [LogDecision (tool_name input) cmd decision (reason res)
                                (patternMatched res) (wasUnwrapped res) (semanticMatch res) ctx,
                              SpawnLogRotation]
                in if blocked res then
                     (warned @ logged @
                        [ConsoleError (''SECURITY: '' @ reason res),
                         ConsoleError (''Command: '' @ take 100 cmd
                                         @ (if length cmd > 100 then ''...'' else []))], 2)
                   else if ask res then (warned @ logged @ [PrintAskDecision (reason res)], 0)
                   else (warned @ logged, 0))))"

section \<open>The Write hook\<close>

text \<open>
  The hook for the Write tool reads \<open>zeroAccessPaths\<close>, \<open>readOnlyPaths\<close> and the
  \<open>documentation\<close> context of the same configuration file; its functions take the
  configuration record above and use these fields only. Where a name of this hook is
  also a name of the Bash hook it carries the prefix \<open>write\<close>.
\<close>

subsection \<open>Paths (node:path, POSIX)\<close>

text \<open>
  \<open>normalize\<close> and \<open>basename\<close> belong to the runtime; they are modelled after Node's
  \<open>path.posix\<close>: \<open>normalize\<close> drops empty and \<open>.\<close> segments, resolves \<open>..\<close> against the
  segment before it (keeping it in front of a relative path), and keeps one trailing
  slash; \<open>basename\<close> is the last segment, trailing slashes aside.
\<close>

fun normalizeSegments :: "bool \<Rightarrow> string list \<Rightarrow> string list \<Rightarrow> string list" where
  "normalizeSegments allowAboveRoot res [] = rev res"
| "normalizeSegments allowAboveRoot res (seg # segs) =
     (if seg = [] \<or> seg = ''.'' then normalizeSegments allowAboveRoot res segs
      else if seg = ''..'' then
        (case res of
           [] \<Rightarrow> normalizeSegments allowAboveRoot (if allowAboveRoot then [''..''] else []) segs
         | lastSegment # below \<Rightarrow>
             if lastSegment = ''..'' then
               normalizeSegments allowAboveRoot (if allowAboveRoot then ''..'' # res else res) segs
             else normalizeSegments allowAboveRoot below segs)
      else normalizeSegments allowAboveRoot (seg # res) segs)"

definition path_normalize :: "string \<Rightarrow> string" where
  "path_normalize path =
     (if path = [] then ''.''
      else
        (let isAbsolute = (hd path = CHR ''/'');
             trailingSeparator = (last path = CHR ''/'');
             body = join ''/'' (normalizeSegments (\<not> isAbsolute) [] (split_on (CHR ''/'') path))
         in if body = [] then (if isAbsolute then ''/'' else if trailingSeparator then ''./'' else ''.'')
            else (if isAbsolute then ''/'' else []) @ body @ (if trailingSeparator then ''/'' else [])))"

definition path_basename :: "string \<Rightarrow> string" where
  "path_basename path =
     rev (takeWhile (\<lambda>c. c \<noteq> CHR ''/'') (dropWhile (\<lambda>c. c = CHR ''/'') (rev path)))"

definition sep :: string where
  "sep = ''/''"

subsection \<open>Glob pattern utilities\<close>

text \<open>
  \<open>matchGlob\<close>: the pattern in lower case, a backslash before each of
  \<^verbatim>\<open>.+^${}()|[]\\<close>, then \<open>*\<close> replaced by \<open>.*\<close> and \<open>?\<close> by \<open>.\<close>, between \<open>^\<close> and \<open>$\<close>.
\<close>

definition globRegexPattern :: "string \<Rightarrow> string" where
  "globRegexPattern p =
     concat (map (\<lambda>c.
       if c \<in> set (''.+^${}()|[]'' @ [bslash]) then [bslash, c]
       else if c = CHR ''*'' then ''.*''
       else if c = CHR ''?'' then ''.''
       else [c]) (toLowerCase p))"

definition matchGlob :: "string \<Rightarrow> string \<Rightarrow> bool" where
  "matchGlob str p = try_test (''^'' @ globRegexPattern p @ ''$'') ''i'' (toLowerCase str)"

definition matchPath :: "string \<Rightarrow> string \<Rightarrow> string \<Rightarrow> bool" where
  "matchPath home filePath p =
     (let expandedPattern = expand_home home p;
          normalized = expand_home home (path_normalize filePath)
      in if isGlobPattern p then
           (if matchGlob (path_basename normalized) expandedPattern \<or> matchGlob (path_basename normalized) p
            then True
            else if matchGlob normalized expandedPattern then True
            else False)
         else
           (let patternNoSlash = (if endsWith expandedPattern ''/'' then butlast expandedPattern
                                  else expandedPattern)
            in if normalized = expandedPattern \<or> normalized = patternNoSlash then True
               else if endsWith expandedPattern ''/'' \<and> startsWith normalized expandedPattern then True
               else if startsWith normalized (patternNoSlash @ ''/'')
                       \<or> startsWith normalized (patternNoSlash @ sep) then True
               else False))"

subsection \<open>Context detection and path checking\<close>

definition write_detectContext :: "string \<Rightarrow> ToolInput \<Rightarrow> 'a Config_scheme \<Rightarrow> string option" where
  "write_detectContext toolName toolInput config =
     (if (toolName = ''Edit'' \<or> toolName = ''Write'')
         \<and> (case contexts config of
               None \<Rightarrow> False
             | Some cs \<Rightarrow>
                 (case documentation cs of
                    None \<Rightarrow> False
                  | Some docCtx \<Rightarrow>
                      enabled docCtx
                      \<and> list_ex (\<lambda>ext. endsWith (string_or_empty (file_path toolInput)) ext)
                           (file_extensions docCtx)))
      then Some ''documentation''
      else None)"

text \<open>The first rule of a list that matches the path.\<close>

fun firstMatchingPath :: "string \<Rightarrow> string \<Rightarrow> string list \<Rightarrow> string option" where
  "firstMatchingPath home filePath [] = None"
| "firstMatchingPath home filePath (p # ps) =
     (if matchPath home filePath p then Some p else firstMatchingPath home filePath ps)"

definition checkPath :: "string \<Rightarrow> string \<Rightarrow> 'a Config_scheme \<Rightarrow> string option \<Rightarrow> PathResult" where
  "checkPath home filePath config ctx =
     (case (if ''zeroAccessPaths'' \<in> relaxedChecks config ctx then None
            else firstMatchingPath home filePath (zeroAccessPaths config)) of
        Some zeroPath \<Rightarrow>
          \<lparr>blocked = True, reason = ''zero-access path '' @ zeroPath @ '' (no operations allowed)''\<rparr>
      | None \<Rightarrow>
          (case (if ''readOnlyPaths'' \<in> relaxedChecks config ctx then None
                 else firstMatchingPath home filePath (readOnlyPaths config)) of
             Some readonlyPath \<Rightarrow> \<lparr>blocked = True, reason = ''read-only path '' @ readonlyPath\<rparr>
           | None \<Rightarrow> notBlocked))"

subsection \<open>main\<close>

text \<open>
  The effects of this hook's \<open>main\<close>: its \<open>logDecision\<close> takes the tool, the path, the
  decision, the reason and the context.
\<close>

datatype write_effect =
    WriteLogDecision string string string string "string option"
  | WriteSpawnLogRotation
  | WriteConsoleError string

definition write_main :: "string \<Rightarrow> Config \<Rightarrow> HookInput option \<Rightarrow> write_effect list \<times> nat" where
  "write_main home config parsed =
     (case parsed of
        None \<Rightarrow> ([WriteConsoleError ''Error: Invalid JSON input''], 1)
      | Some input \<Rightarrow>
          if tool_name input \<noteq> ''Write'' then ([], 0)
          else if inputFilePath input = [] then ([], 0)
          else
            (let filePath = inputFilePath input;
                 ctx = write_detectContext (tool_name input) (inputToolInput input) config;
                 res = checkPath home filePath config ctx
             in if blocked res then
                  ([WriteLogDecision ''Write'' filePath ''blocked'' (reason res) ctx,
                    WriteSpawnLogRotation,
                    WriteConsoleError
                      (''SECURITY: Blocked write to '' @ reason res @ '': '' @ filePath)], 2)
                else
                  ([WriteLogDecision ''Write'' filePath ''allowed'' [] ctx,
                    WriteSpawnLogRotation], 0)))"

section \<open>Example configurations\<close>

text \<open>Concrete inputs for the instances and counterexamples below.\<close>

definition exampleHome :: string where
  "exampleHome = ''/home/user''"

definition pathConfig :: "string list \<Rightarrow> string list \<Rightarrow> string list \<Rightarrow> Config" where
  "pathConfig zero readOnly noDelete =
     \<lparr>bashToolPatterns = [], zeroAccessPaths = zero, readOnlyPaths = readOnly,
      noDeletePaths = noDelete, contexts = None\<rparr>"

text \<open>
  A configuration whose \<open>commit_message\<close> context is detected by \<^verbatim>\<open>git\s+commit\<close>
  and relaxes \<open>semantic_git\<close>.
\<close>

definition commitContextConfig :: Config where
  "commitContextConfig =
     \<lparr>bashToolPatterns = [], zeroAccessPaths = [], readOnlyPaths = [], noDeletePaths = [],
      contexts = Some \<lparr>documentation = None,
        commit_message = Some \<lparr>enabled = True, file_extensions = [],
          command_patterns = [''git'' @ bs ''s+commit''],
          relaxed_checks = [''semantic_git'']\<rparr>\<rparr>\<rparr>"

text \<open>
  Four patterns: \<^verbatim>\<open>(\<close> does not compile, the second is empty, the third,
  \<^verbatim>\<open>\brm\s+-rf\<close>, blocks and the fourth, \<^verbatim>\<open>\brm\b\<close>, asks.
\<close>

definition patternsConfig :: Config where
  "patternsConfig =
     \<lparr>bashToolPatterns =
        [\<lparr>pattern = ''('', Pattern.reason = ''unbalanced'', Pattern.ask = False\<rparr>,
         \<lparr>pattern = [], Pattern.reason = ''empty'', Pattern.ask = False\<rparr>,
         \<lparr>pattern = bs ''brm'' @ bs ''s+-rf'', Pattern.reason = ''rm with recursive flags'',
          Pattern.ask = False\<rparr>,
         \<lparr>pattern = bs ''brm'' @ bs ''b'', Pattern.reason = ''rm'', Pattern.ask = True\<rparr>],
      zeroAccessPaths = [], readOnlyPaths = [], noDeletePaths = [], contexts = None\<rparr>"

text \<open>One blocking pattern, \<^verbatim>\<open>push\<close>.\<close>

definition pushPatternConfig :: Config where
  "pushPatternConfig =
     \<lparr>bashToolPatterns = [\<lparr>pattern = ''push'', Pattern.reason = ''no pushing'', Pattern.ask = False\<rparr>],
      zeroAccessPaths = [], readOnlyPaths = [], noDeletePaths = [], contexts = None\<rparr>"

text \<open>
  Rules for the Write hook: two zero-access rules, two read-only rules, no context.
\<close>

definition writeConfig :: Config where
  "writeConfig =
     \<lparr>bashToolPatterns = [], zeroAccessPaths = [''~/.ssh/'', ''*.pem''],
      readOnlyPaths = [''src/'', ''*.pem''], noDeletePaths = [], contexts = None\<rparr>"

text \<open>
  A directory that is a zero-access rule and a read-only rule, with a \<open>documentation\<close>
  context (files ending in \<^verbatim>\<open>.md\<close>) that relaxes \<open>zeroAccessPaths\<close>.
\<close>

definition docRelaxedConfig :: Config where
  "docRelaxedConfig =
     \<lparr>bashToolPatterns = [], zeroAccessPaths = [''secrets/''], readOnlyPaths = [''secrets/''],
      noDeletePaths = [],
      contexts = Some \<lparr>documentation = Some \<lparr>enabled = True, file_extensions = [''.md''],
          command_patterns = [], relaxed_checks = [''zeroAccessPaths'']\<rparr>,
        commit_message = None\<rparr>\<rparr>"

definition writeRequest :: "string \<Rightarrow> HookInput" where
  "writeRequest f = \<lparr>tool_name = ''Write'', tool_input = Some \<lparr>command = None, file_path = Some f\<rparr>\<rparr>"

definition bashInput :: "string \<Rightarrow> ToolInput" where
  "bashInput cmd = \<lparr>command = Some cmd, file_path = None\<rparr>"

section \<open>Properties\<close>

subsection \<open>The model of the runtime\<close>

text \<open>\<open>char_le\<close> is the order of the character codes.\<close>

lemma foldl_bits: "foldl (\<lambda>n b. 2 * n + of_bool b) a xs = a * 2 ^ length xs + bits_value xs"
proof (induction xs arbitrary: a)
  case Nil
  show ?case by (simp add: bits_value_def)
next
  case (Cons x xs)
  show ?case
    using Cons.IH [of "2 * a + of_bool x"] Cons.IH [of "of_bool x"]
    by (simp add: bits_value_def algebra_simps)
qed

lemma bits_value_Cons: "bits_value (x # xs) = of_bool x * 2 ^ length xs + bits_value xs"
  using foldl_bits [of "of_bool x" xs] by (simp add: bits_value_def)

lemma bits_value_less: "bits_value xs < 2 ^ length xs"
proof (induction xs)
  case Nil
  show ?case by (simp add: bits_value_def)
next
  case (Cons x xs)
  then show ?case by (cases x) (simp_all add: bits_value_Cons)
qed

lemma bits_le_value:
  "length xs = length ys \<Longrightarrow> bits_le xs ys \<longleftrightarrow> bits_value xs \<le> bits_value ys"
proof (induction xs ys rule: bits_le.induct)
  case (1 x xs y ys)
  then have len: "length xs = length ys" by simp
  show ?case
  proof (cases "x = y")
    case True
    with 1 len show ?thesis by (simp add: bits_value_Cons)
  next
    case False
    with len bits_value_less [of xs] bits_value_less [of ys] show ?thesis
      by (cases x; cases y) (simp_all add: bits_value_Cons)
  qed
qed (simp_all add: bits_value_def)

lemma of_char_bits: "of_char c = bits_value (char_bits c)"
  by (cases c) (simp add: char_bits_def bits_value_def)

lemma char_le_code_order: "char_le c d \<longleftrightarrow> (of_char c :: nat) \<le> of_char d"
proof -
  have "length (char_bits c) = length (char_bits d)"
    by (simp add: char_bits_def)
  then show ?thesis
    unfolding char_le_def of_char_bits by (rule bits_le_value)
qed


text \<open>Every regular expression that the source writes as a constant compiles.\<close>

lemma source_patterns_compile:
  "list_all (\<lambda>p. RegExp_new p [] \<noteq> None)
     (map wrapperPattern (shellWrappers @ pythonWrappers)
        @ systemPatterns @ [envPattern, listPattern, ''^~''])
   \<and> RegExp_new quoted_argument ''g'' \<noteq> None"
  by code_simp

text \<open>
  An escaped string compiles, alone and with the suffix of the zero-access check: the
  parser reads it as a sequence of characters, one for each character of the string.
\<close>

lemma rx_step_escaped_all:
  "list_all (\<lambda>c. rx_step ((k, alts, cur) # fs, q, n, mr) bslash (c # r)
           = Some (((k, alts, RChar c # cur) # fs, QOk, n, mr), 1)) regex_specials"
  by code_simp

lemma rx_step_escaped:
  assumes "c \<in> set regex_specials"
  shows "rx_step ((k, alts, cur) # fs, q, n, mr) bslash (c # r)
           = Some (((k, alts, RChar c # cur) # fs, QOk, n, mr), 1)"
  using assms rx_step_escaped_all [of k alts cur fs q n mr r] by (simp add: list_all_iff)

lemma rx_step_plain:
  assumes "c \<notin> set regex_specials"
  shows "rx_step ((k, alts, cur) # fs, q, n, mr) c r = Some (((k, alts, RChar c # cur) # fs, QOk, n, mr), 0)"
proof -
  from assms have "c \<noteq> CHR ''(''" "c \<noteq> CHR '')''" "c \<noteq> CHR ''|''" "c \<noteq> CHR ''*''"
    "c \<noteq> CHR ''+''" "c \<noteq> CHR ''?''" "c \<noteq> CHR ''{''" "c \<noteq> CHR ''[''" "c \<noteq> bslash"
    "c \<noteq> CHR ''^''" "c \<noteq> CHR ''$''" "c \<noteq> CHR ''.''"
    by (auto simp: regex_specials_def)
  then show ?thesis
    by (simp add: rx_step_def add_atom_def)
qed

lemma escapeRegex_Cons:
  "escapeRegex (c # s) = (if c \<in> set regex_specials then [bslash, c] else [c]) @ escapeRegex s"
  by (simp add: escapeRegex_def regex_specials_def)

lemma rx_parse_loop_escaped:
  "rx_parse_loop ((k, alts, cur) # fs, q, n, mr) (escapeRegex s @ t) =
     rx_parse_loop ((k, alts, rev (map RChar s) @ cur) # fs, (if s = [] then q else QOk), n, mr) t"
proof (induction s arbitrary: cur q)
  case Nil
  show ?case by (simp add: escapeRegex_def)
next
  case (Cons c s)
  show ?case
  proof (cases "c \<in> set regex_specials")
    case True
    then have "rx_parse_loop ((k, alts, cur) # fs, q, n, mr) (escapeRegex (c # s) @ t) =
        rx_parse_loop ((k, alts, RChar c # cur) # fs, QOk, n, mr) (escapeRegex s @ t)"
      by (simp add: escapeRegex_Cons rx_step_escaped)
    then show ?thesis by (simp add: Cons.IH)
  next
    case False
    then have "rx_parse_loop ((k, alts, cur) # fs, q, n, mr) (escapeRegex (c # s) @ t) =
        rx_parse_loop ((k, alts, RChar c # cur) # fs, QOk, n, mr) (escapeRegex s @ t)"
      by (simp add: escapeRegex_Cons rx_step_plain)
    then show ?thesis by (simp add: Cons.IH)
  qed
qed

lemma rx_parse_loop_zeroAccessSuffix:
  "rx_parse_loop ([(GTop, [], cur)], q, 0, 0) zeroAccessSuffix \<noteq> None
   \<and> (case rx_parse_loop ([(GTop, [], cur)], q, 0, 0) zeroAccessSuffix of
         None \<Rightarrow> False
       | Some st \<Rightarrow> length (fst st) = 1 \<and> fst (snd (snd st)) = 0 \<and> snd (snd (snd st)) = 0)"
  by code_simp

lemma escaped_pattern_compiles:
  "RegExp_new (escapeRegex s) [] \<noteq> None \<and> RegExp_new (escapeRegex s @ zeroAccessSuffix) [] \<noteq> None"
proof -
  have "rx_parse_loop ([(GTop, [], [])], QNo, 0, 0) (escapeRegex s @ []) =
      Some ([(GTop, [], rev (map RChar s))], (if s = [] then QNo else QOk), 0, 0)"
    by (simp only: rx_parse_loop_escaped) simp
  then have 1: "rx_parse (escapeRegex s) \<noteq> None"
    by (simp add: rx_parse_def)
  have l: "rx_parse_loop ([(GTop, [], [])], QNo, 0, 0) (escapeRegex s @ zeroAccessSuffix) =
      rx_parse_loop ([(GTop, [], rev (map RChar s))], (if s = [] then QNo else QOk), 0, 0)
        zeroAccessSuffix"
    by (simp only: rx_parse_loop_escaped) simp
  obtain st where st: "rx_parse_loop ([(GTop, [], rev (map RChar s))], (if s = [] then QNo else QOk), 0, 0)
        zeroAccessSuffix = Some st" "length (fst st) = 1" "fst (snd (snd st)) = 0"
      "snd (snd (snd st)) = 0"
    using rx_parse_loop_zeroAccessSuffix [of "rev (map RChar s)" "if s = [] then QNo else QOk"]
    by (auto split: option.splits)
  obtain f q where f: "st = ([f], q, 0, 0)"
    using st(2-4) by (cases st; cases "fst st"; cases "tl (fst st)") auto
  have 2: "rx_parse (escapeRegex s @ zeroAccessSuffix) \<noteq> None"
    by (cases f) (simp add: rx_parse_def l st(1) f)
  from 1 2 show ?thesis
    by (auto simp: RegExp_new_def split: option.splits)
qed


subsection \<open>What each check of \<open>checkCommand\<close> can return\<close>

lemma checkSemanticGit_asks:
  "checkSemanticGit cmd wu = Some r \<Longrightarrow> \<not> blocked r \<and> ask r"
  by (cases "analyzeGitCommand cmd") (auto simp: checkSemanticGit_def result_def split: if_splits)

lemma checkBashToolPatterns_exclusive:
  "checkBashToolPatterns cmd wu idx items = Some r \<Longrightarrow> \<not> (blocked r \<and> ask r)"
proof (induction items arbitrary: idx)
  case Nil
  then show ?case by simp
next
  case (Cons item items)
  show ?case
  proof (cases "regexp_test (compiled item) cmd")
    case True
    with Cons.prems show ?thesis
      by (cases "Pattern.ask item") (auto simp: result_def)
  next
    case False
    with Cons.prems have "checkBashToolPatterns cmd wu (Suc idx) items = Some r" by simp
    then show ?thesis by (rule Cons.IH)
  qed
qed

lemma checkZeroAccess_blocks:
  "checkZeroAccess cmd wu paths = Some r \<Longrightarrow> blocked r \<and> \<not> ask r"
proof (induction paths)
  case Nil
  then show ?case by simp
next
  case (Cons pathObj paths)
  then show ?case
    by (simp add: result_def split: if_splits) auto
qed

lemma checkTierPaths_blocks:
  "checkTierPaths cmd wu patterns pathType pm paths = Some r \<Longrightarrow> blocked r \<and> \<not> ask r"
proof (induction paths)
  case Nil
  then show ?case by simp
next
  case (Cons pathObj paths)
  then show ?case
    by (simp add: result_def Let_def split: if_splits) auto
qed

subsection \<open>C9: a decision is never both BLOCK and ASK\<close>

text \<open>
  Claim C9. For every command, compiled configuration and context, the result of
  \<open>checkCommand\<close> never has \<open>blocked\<close> and \<open>ask\<close> both true: the decision is BLOCK
  (\<open>blocked\<close> alone), ASK (\<open>ask\<close> alone) or ALLOW (neither).
\<close>

theorem checkCommand_never_blocked_and_ask:
  "\<not> (blocked (checkCommand cmd config ctx) \<and> ask (checkCommand cmd config ctx))"
proof -
  obtain u wu where uw: "unwrapCommand cmd 0 = (u, wu)"
    by (cases "unwrapCommand cmd 0")
  define g where "g = (if ''semantic_git'' \<in> relaxedChecks config ctx then None
      else checkSemanticGit u wu)"
  define p where "p = (if ''bashToolPatterns'' \<in> relaxedChecks config ctx then None
      else checkBashToolPatterns u wu 0 (bashToolPatterns_compiled config))"
  define z where "z = (if ''zeroAccessPaths'' \<in> relaxedChecks config ctx then None
      else checkZeroAccess u wu (zeroAccessPaths_compiled config))"
  define ro where "ro = (if ''readOnlyPaths'' \<in> relaxedChecks config ctx then None
      else checkTierPaths u wu READ_ONLY_BLOCKED ''read-only path'' ''readonly_path''
             (readOnlyPaths_compiled config))"
  define nd where "nd = (if ''noDeletePaths'' \<in> relaxedChecks config ctx then None
      else checkTierPaths u wu NO_DELETE_BLOCKED ''no-delete path'' ''nodelete_path''
             (noDeletePaths_compiled config))"
  have eq: "checkCommand cmd config ctx =
      (case g of Some r \<Rightarrow> r | None \<Rightarrow>
      (case p of Some r \<Rightarrow> r | None \<Rightarrow>
      (case z of Some r \<Rightarrow> r | None \<Rightarrow>
      (case ro of Some r \<Rightarrow> r | None \<Rightarrow>
      (case nd of Some r \<Rightarrow> r | None \<Rightarrow> result False False [] [] wu False)))))"
    by (simp only: checkCommand_def uw g_def p_def z_def ro_def nd_def prod.case)
  have 1: "\<not> (blocked r \<and> ask r)" if "g = Some r" for r
    using that checkSemanticGit_asks [of u wu r] by (simp add: g_def split: if_splits)
  have 2: "\<not> (blocked r \<and> ask r)" if "p = Some r" for r
    using that checkBashToolPatterns_exclusive [of u wu 0 _ r] by (simp add: p_def split: if_splits)
  have 3: "\<not> (blocked r \<and> ask r)" if "z = Some r" for r
    using that checkZeroAccess_blocks [of u wu _ r] by (simp add: z_def split: if_splits)
  have 4: "\<not> (blocked r \<and> ask r)" if "ro = Some r" for r
    using that checkTierPaths_blocks [of u wu _ _ _ _ r] by (simp add: ro_def split: if_splits)
  have 5: "\<not> (blocked r \<and> ask r)" if "nd = Some r" for r
    using that checkTierPaths_blocks [of u wu _ _ _ _ r] by (simp add: nd_def split: if_splits)
  have 6: "\<not> (blocked (result False False [] [] wu False) \<and> ask (result False False [] [] wu False))"
    by (simp add: result_def)
  show ?thesis
    unfolding eq using 1 2 3 4 5 6 by (simp split: option.splits)
qed

subsection \<open>C4: git push\<close>

lemma trim_Nil [simp]: "trim [] = []"
  by (simp add: trim_def)

lemma sublist_join: "a \<in> set args \<Longrightarrow> sublist a (join sp args)"
proof (induction sp args rule: join.induct)
  case (1 sp)
  then show ?case by simp
next
  case (2 sp x)
  then show ?case by simp
next
  case (3 sp x y ys)
  show ?case
  proof (cases "a = x")
    case True
    then show ?thesis by simp
  next
    case False
    with 3 have "sublist a (join sp (y # ys))" by simp
    then obtain ps ss where "join sp (y # ys) = ps @ a @ ss"
      by (auto simp: sublist_def)
    then have "join sp (x # y # ys) = (x @ sp @ ps) @ a @ ss" by simp
    then show ?thesis unfolding sublist_def by blast
  qed
qed

text \<open>
  Claim C4 is about every command whose tokens start with \<open>git\<close>, \<open>push\<close>. The
  analyzer first requires the trimmed command to start with \<open>git\<close> and a space, and only
  then splits it at white space: with a tab after \<open>git\<close> the tokens are \<open>git\<close>, \<open>push\<close>,
  \<open>--force\<close> and the result is \<open>[false, ""]\<close>.
\<close>

theorem tab_after_git_is_not_analyzed:
  "take 2 (split_ws (trim (''git'' @ [CHR 0x09] @ ''push --force''))) = [''git'', ''push'']
   \<and> ''--force'' \<in> set (drop 2 (split_ws (trim (''git'' @ [CHR 0x09] @ ''push --force''))))
   \<and> \<not> str_includes (join '' '' (drop 2 (split_ws (trim (''git'' @ [CHR 0x09] @ ''push --force'')))))
         ''--force-with-lease''
   \<and> analyzeGitCommand (''git'' @ [CHR 0x09] @ ''push --force'') = (False, [])"
  by code_simp

text \<open>
  Claim C4 as amended. For every command whose trimmed text starts with \<open>git\<close> and a
  space and whose second token is \<open>push\<close>, with the tokens after it as arguments: the
  analyzer reports dangerous exactly when \<open>--force-with-lease\<close> does not occur in the
  arguments (the source looks for it in the arguments joined by spaces, so
  \<open>--force-with-lease=ref\<close> counts) and the arguments contain \<open>--force\<close>, \<open>-f\<close> or a
  single-dash token with the letter \<open>f\<close> after its dash. In particular, with the
  argument \<open>--force-with-lease\<close> the result is \<open>[false, ""]\<close> whatever else is there,
  \<open>--force\<close> included.
\<close>

theorem analyzeGitCommand_push:
  assumes "startsWith (trim cmd) ''git ''"
    and "take 2 (split_ws (trim cmd)) = [''git'', ''push'']"
  shows "(fst (analyzeGitCommand cmd) \<longleftrightarrow>
            \<not> str_includes (join '' '' (drop 2 (split_ws (trim cmd)))) ''--force-with-lease''
            \<and> (''--force'' \<in> set (drop 2 (split_ws (trim cmd)))
                 \<or> ''-f'' \<in> set (drop 2 (split_ws (trim cmd)))
                 \<or> list_ex (shortFlagWith (CHR ''f'')) (drop 2 (split_ws (trim cmd)))))
         \<and> (''--force-with-lease'' \<in> set (drop 2 (split_ws (trim cmd)))
              \<longrightarrow> analyzeGitCommand cmd = (False, []))"
proof -
  define parts where "parts = split_ws (trim cmd)"
  define args where "args = drop 2 parts"
  from assms(1) have ne: "trim cmd \<noteq> []" "cmd \<noteq> []"
    by (auto simp: startsWith_def)
  from assms(2) have len: "\<not> length parts < 2" and sub: "parts ! 1 = ''push''"
    unfolding parts_def
    by (cases "split_ws (trim cmd)"; cases "tl (split_ws (trim cmd))"; simp)+
  have eq: "analyzeGitCommand cmd = (case analyzePush args of Some res \<Rightarrow> res | None \<Rightarrow> (False, []))"
    using assms(1) ne len sub
    by (simp add: analyzeGitCommand_def parts_def [symmetric] args_def [symmetric] Let_def
        split: option.splits)
  have lease: "str_includes (join '' '' args) ''--force-with-lease''"
    if "''--force-with-lease'' \<in> set args"
    using that by (simp add: str_includes_def sublist_join)
  show ?thesis
    unfolding parts_def [symmetric] args_def [symmetric] eq
    using lease by (auto simp: analyzePush_def)
qed

theorem analyzeGitCommand_push_witness:
  "startsWith (trim ''git push -uf origin main'') ''git ''
   \<and> take 2 (split_ws (trim ''git push -uf origin main'')) = [''git'', ''push'']
   \<and> fst (analyzeGitCommand ''git push -uf origin main'')
   \<and> startsWith (trim ''git push --force --force-with-lease'') ''git ''
   \<and> take 2 (split_ws (trim ''git push --force --force-with-lease'')) = [''git'', ''push'']
   \<and> analyzeGitCommand ''git push --force --force-with-lease'' = (False, [])"
proof -
  have a1: "startsWith (trim ''git push -uf origin main'') ''git ''"
    by code_simp
  have a2: "take 2 (split_ws (trim ''git push -uf origin main'')) = [''git'', ''push'']"
    by code_simp
  have a3: "\<not> str_includes (join '' '' (drop 2 (split_ws (trim ''git push -uf origin main''))))
              ''--force-with-lease''
            \<and> list_ex (shortFlagWith (CHR ''f'')) (drop 2 (split_ws (trim ''git push -uf origin main'')))"
    by code_simp
  have b1: "startsWith (trim ''git push --force --force-with-lease'') ''git ''"
    by code_simp
  have b2: "take 2 (split_ws (trim ''git push --force --force-with-lease'')) = [''git'', ''push'']"
    by code_simp
  have b3: "''--force-with-lease'' \<in> set (drop 2 (split_ws (trim ''git push --force --force-with-lease'')))"
    by code_simp
  show ?thesis
    using a1 a2 a3 b1 b2 b3 analyzeGitCommand_push [OF a1 a2] analyzeGitCommand_push [OF b1 b2]
    by blast
qed

subsection \<open>C6: the unwrapper\<close>

text \<open>
  \<open>unwrapCommand\<close> is a total function: its recursion is on \<open>5 - depth\<close>. At depth 5 it
  returns its argument as it is, flagged as unwrapped.
\<close>

lemma unwrapCommand_depth_limit: "5 \<le> depth \<Longrightarrow> unwrapCommand cmd depth = (cmd, True)"
  by (simp add: unwrapCommand.simps)

text \<open>
  Claim C6 says that the flag \<open>wasUnwrapped\<close> is true whenever a wrapper level was
  entered. The command \<^verbatim>\<open>bash -c " "\<close> is a shell wrapper around a blank command: the
  unwrapper enters it (depth 1) and there returns through the guard for an empty
  command, whose flag is the constant \<open>false\<close> where the other two returns have
  \<open>depth > 0\<close>.
\<close>

theorem unwrapCommand_blank_inner_command:
  "unwrapCommand ''bash -c \" \"'' 0 = ('' '', False)"
  by code_simp

subsection \<open>C2: a literal rule and a longer name\<close>

text \<open>
  Claim C2 says that a literal rule without a trailing slash does not match a path that
  continues it by a letter, a digit, \<open>.\<close>, \<open>_\<close> or \<open>-\<close>, in the path matcher of the Write
  hook and in the three command checks. The zero-access check has the look-ahead
  \<^verbatim>\<open>(?![a-zA-Z0-9_.-])\<close> for this, and the path matcher compares whole paths; the
  read-only and no-delete checks substitute the escaped rule into their templates with
  nothing behind it, so the rule \<^verbatim>\<open>~/.env\<close> matches in a command on \<^verbatim>\<open>~/.env.example\<close>.
\<close>

theorem read_only_rule_matches_longer_name:
  "checkCommand ''echo x > ~/.env.example'' (compileConfig exampleHome (pathConfig [] [''~/.env''] [])) None
     = result True False ''Blocked: write operation on read-only path ~/.env'' ''readonly_path'' False False
   \<and> checkCommand ''rm ~/.env.example'' (compileConfig exampleHome (pathConfig [] [] [''~/.env''])) None
     = result True False ''Blocked: delete operation on no-delete path ~/.env'' ''nodelete_path'' False False"
  by code_simp

text \<open>The same rule in the zero-access tier, and in the path matcher, does not match.\<close>

lemma zero_access_rule_skips_longer_name:
  "checkCommand ''cat ~/.env.example'' (compileConfig exampleHome (pathConfig [''~/.env''] [] [])) None
     = result False False [] [] False False
   \<and> \<not> matchPath exampleHome ''~/.env.example'' ''~/.env''"
  by code_simp

subsection \<open>C3: reading and writing under a protected directory\<close>

text \<open>
  Claim C3. With \<^verbatim>\<open>~/.ssh/\<close> as a zero-access rule, \<^verbatim>\<open>cat ~/.ssh/id_rsa\<close> is blocked;
  with \<^verbatim>\<open>~/.ssh/\<close> as a read-only rule only, \<^verbatim>\<open>cat ~/.ssh/id_rsa\<close> is allowed and
  \<^verbatim>\<open>echo x > ~/.ssh/id_rsa\<close> is blocked (home directory \<^verbatim>\<open>/home/user\<close>, no other rule,
  no context).
\<close>

theorem ssh_directory_tiers:
  "checkCommand ''cat ~/.ssh/id_rsa'' (compileConfig exampleHome (pathConfig [''~/.ssh/''] [] [])) None
     = result True False ''Blocked: zero-access path ~/.ssh/ (no operations allowed)''
         ''zero_access_literal'' False False
   \<and> checkCommand ''cat ~/.ssh/id_rsa'' (compileConfig exampleHome (pathConfig [] [''~/.ssh/''] [])) None
     = result False False [] [] False False
   \<and> checkCommand ''echo x > ~/.ssh/id_rsa'' (compileConfig exampleHome (pathConfig [] [''~/.ssh/''] [])) None
     = result True False ''Blocked: write operation on read-only path ~/.ssh/'' ''readonly_path''
         False False"
  by code_simp

subsection \<open>C1: the templates of the read-only and no-delete tiers\<close>


lemma notBlocked_blocked [simp]: "\<not> blocked notBlocked"
  by (simp add: notBlocked_def)





















subsection \<open>C5: a dangerous git command asks\<close>

text \<open>
  Claim C5 says that a dangerous result of the git analyzer always yields ASK. The
  analysis is skipped when the active context relaxes \<open>semantic_git\<close>: with the
  \<open>commit_message\<close> context of \<open>commitContextConfig\<close>, the command below is dangerous for
  the analyzer (\<open>checkout -f\<close>), is detected as a commit command, and is allowed.
\<close>

theorem relaxed_semantic_git_allows:
  "fst (analyzeGitCommand (fst (unwrapCommand ''git checkout -f main && git commit -m wip'' 0)))
   \<and> detectContext ''Bash'' (bashInput ''git checkout -f main && git commit -m wip'')
         (compileConfig exampleHome commitContextConfig) = Some ''commit_message''
   \<and> checkCommand ''git checkout -f main && git commit -m wip''
         (compileConfig exampleHome commitContextConfig) (Some ''commit_message'')
       = result False False [] [] False False"
  by code_simp

text \<open>
  Claim C5 as amended. For every command, compiled configuration and context that does
  not relax \<open>semantic_git\<close>: when the analyzer reports the unwrapped command dangerous,
  the decision is ASK (\<open>ask\<close> true, \<open>blocked\<close> false) with the analyzer's reason,
  marked as a semantic match.
\<close>

theorem semantic_git_asks:
  assumes "''semantic_git'' \<notin> relaxedChecks config ctx"
    and "fst (analyzeGitCommand (fst (unwrapCommand cmd 0)))"
  shows "checkCommand cmd config ctx =
           result False True (snd (analyzeGitCommand (fst (unwrapCommand cmd 0))))
             ''semantic_git'' (snd (unwrapCommand cmd 0)) True"
proof -
  obtain u wu where uw: "unwrapCommand cmd 0 = (u, wu)"
    by (cases "unwrapCommand cmd 0")
  obtain d gr where an: "analyzeGitCommand u = (d, gr)"
    by (cases "analyzeGitCommand u")
  from assms(2) have "d" by (simp add: uw an)
  then have "checkSemanticGit u wu = Some (result False True gr ''semantic_git'' wu True)"
    by (simp add: checkSemanticGit_def an)
  with assms(1) show ?thesis
    by (simp add: checkCommand_def uw an)
qed

theorem semantic_git_asks_witness:
  "''semantic_git'' \<notin> relaxedChecks (compileConfig exampleHome (pathConfig [] [] [])) None
   \<and> fst (analyzeGitCommand (fst (unwrapCommand ''git push --force'' 0)))
   \<and> checkCommand ''git push --force'' (compileConfig exampleHome (pathConfig [] [] [])) None
       = result False True ''git push --force can overwrite remote history without safety checks''
           ''semantic_git'' False True"
proof -
  have u: "unwrapCommand ''git push --force'' 0 = (''git push --force'', False)"
    by code_simp
  have a: "analyzeGitCommand ''git push --force''
             = (True, ''git push --force can overwrite remote history without safety checks'')"
    by code_simp
  have h1: "''semantic_git'' \<notin> relaxedChecks (compileConfig exampleHome (pathConfig [] [] [])) None"
    by (simp add: relaxedChecks_def contextConfig_def)
  have h2: "fst (analyzeGitCommand (fst (unwrapCommand ''git push --force'' 0)))"
    by (simp add: u a)
  show ?thesis
    using h1 h2 semantic_git_asks [OF h1 h2] by (simp add: u a)
qed

subsection \<open>C7: compiling the patterns, and the first match\<close>

lemma truncate_extend [simp]:
  "Pattern.truncate (Pattern.extend (item :: Pattern) ext) = item"
  by (cases item) (simp add: Pattern.defs)

lemma compiled_extend [simp]:
  "compiled (Pattern.extend (item :: Pattern) (CompiledPattern.fields re)) = re"
  by (cases item) (simp add: Pattern.defs CompiledPattern.defs)

lemma ask_extend [simp]:
  "Pattern.ask (Pattern.extend (item :: Pattern) ext) = Pattern.ask item"
  "Pattern.reason (Pattern.extend (item :: Pattern) ext) = Pattern.reason item"
  "pattern (Pattern.extend (item :: Pattern) ext) = pattern item"
  by (cases item; simp add: Pattern.defs)+

lemma compileRegexPatterns_from_kept:
  "map Pattern.truncate (fst (compileRegexPatterns_from idx ps)) =
     filter (\<lambda>item. pattern item \<noteq> [] \<and> RegExp_new (pattern item) ''i'' \<noteq> None) ps"
proof (induction ps arbitrary: idx)
  case Nil
  show ?case by simp
next
  case (Cons item ps)
  obtain cs ws where r: "compileRegexPatterns_from (Suc idx) ps = (cs, ws)"
    by (cases "compileRegexPatterns_from (Suc idx) ps")
  from Cons.IH [of "Suc idx"] r show ?case
    by (cases "RegExp_new (pattern item) ''i''") simp_all
qed

lemma compileRegexPatterns_from_regexps:
  "map (\<lambda>c. Some (compiled c)) (fst (compileRegexPatterns_from idx ps)) =
     map (\<lambda>item. RegExp_new (pattern item) ''i'')
       (filter (\<lambda>item. pattern item \<noteq> [] \<and> RegExp_new (pattern item) ''i'' \<noteq> None) ps)"
proof (induction ps arbitrary: idx)
  case Nil
  show ?case by simp
next
  case (Cons item ps)
  obtain cs ws where r: "compileRegexPatterns_from (Suc idx) ps = (cs, ws)"
    by (cases "compileRegexPatterns_from (Suc idx) ps")
  from Cons.IH [of "Suc idx"] r show ?case
    by (cases "RegExp_new (pattern item) ''i''") simp_all
qed

lemma compileRegexPatterns_from_warnings:
  "map snd (snd (compileRegexPatterns_from idx ps)) =
     map pattern (filter (\<lambda>item. pattern item \<noteq> [] \<and> RegExp_new (pattern item) ''i'' = None) ps)"
proof (induction ps arbitrary: idx)
  case Nil
  show ?case by simp
next
  case (Cons item ps)
  obtain cs ws where r: "compileRegexPatterns_from (Suc idx) ps = (cs, ws)"
    by (cases "compileRegexPatterns_from (Suc idx) ps")
  from Cons.IH [of "Suc idx"] r show ?case
    by (cases "RegExp_new (pattern item) ''i''") simp_all
qed

lemma checkBashToolPatterns_first:
  assumes "list_all (\<lambda>c. \<not> regexp_test (compiled c) cmd) pre"
    and "regexp_test (compiled item) cmd"
  shows "checkBashToolPatterns cmd wu idx (pre @ item # post) =
     Some (if Pattern.ask item
           then result False True (Pattern.reason item)
                  (''yaml_pattern_'' @ decimal (idx + length pre)) wu False
           else result True False (''Blocked: '' @ Pattern.reason item)
                  (''yaml_pattern_'' @ decimal (idx + length pre)) wu False)"
  using assms by (induction pre arbitrary: idx) simp_all

text \<open>
  Claim C7 says that only a pattern that fails to compile is dropped and that the first
  compiled pattern that matches decides the verdict. The empty pattern compiles and is
  dropped all the same (\<open>if (!pattern) continue\<close>); and the git analysis runs before the
  patterns: \<^verbatim>\<open>git push --force\<close> matches the blocking pattern \<^verbatim>\<open>push\<close> of
  \<open>pushPatternConfig\<close>, and the decision is ASK, from the analyzer.
\<close>

theorem empty_pattern_dropped_and_git_first:
  "RegExp_new [] ''i'' \<noteq> None
   \<and> compileRegexPatterns [\<lparr>pattern = [], Pattern.reason = ''empty'', Pattern.ask = False\<rparr>] = []
   \<and> regexp_test (compiled (hd (bashToolPatterns_compiled (compileConfig exampleHome pushPatternConfig))))
         (fst (unwrapCommand ''git push --force'' 0))
   \<and> \<not> Pattern.ask (hd (bashToolPatterns_compiled (compileConfig exampleHome pushPatternConfig)))
   \<and> checkCommand ''git push --force'' (compileConfig exampleHome pushPatternConfig) None
       = result False True ''git push --force can overwrite remote history without safety checks''
           ''semantic_git'' False True"
  by code_simp

text \<open>
  Claim C7 as amended. Compilation is total: a pattern whose expression is empty or
  does not compile is dropped (with a warning when it does not compile), the others
  are kept in their order, each with the regexp of its expression. During evaluation,
  when the context does not relax \<open>bashToolPatterns\<close> and the git analysis is relaxed or
  does not report the unwrapped command dangerous, the first compiled pattern in that
  order that matches the unwrapped command decides: ASK with its reason if it declares
  \<open>ask\<close>, BLOCK otherwise, under the identifier of its position in the compiled list.
\<close>

theorem patterns_compile_and_first_match:
  "map Pattern.truncate (compileRegexPatterns ps) =
     filter (\<lambda>item. pattern item \<noteq> [] \<and> RegExp_new (pattern item) ''i'' \<noteq> None) ps
   \<and> map (\<lambda>c. Some (compiled c)) (compileRegexPatterns ps) =
       map (\<lambda>item. RegExp_new (pattern item) ''i'')
         (filter (\<lambda>item. pattern item \<noteq> [] \<and> RegExp_new (pattern item) ''i'' \<noteq> None) ps)
   \<and> map snd (compileRegexPatterns_warnings ps) =
       map pattern (filter (\<lambda>item. pattern item \<noteq> [] \<and> RegExp_new (pattern item) ''i'' = None) ps)
   \<and> (''bashToolPatterns'' \<notin> relaxedChecks config ctx
        \<and> (''semantic_git'' \<in> relaxedChecks config ctx
             \<or> \<not> fst (analyzeGitCommand (fst (unwrapCommand cmd 0))))
        \<and> bashToolPatterns_compiled config = pre @ item # post
        \<and> list_all (\<lambda>c. \<not> regexp_test (compiled c) (fst (unwrapCommand cmd 0))) pre
        \<and> regexp_test (compiled item) (fst (unwrapCommand cmd 0))
        \<longrightarrow> checkCommand cmd config ctx =
             (if Pattern.ask item
              then result False True (Pattern.reason item)
                     (''yaml_pattern_'' @ decimal (length pre)) (snd (unwrapCommand cmd 0)) False
              else result True False (''Blocked: '' @ Pattern.reason item)
                     (''yaml_pattern_'' @ decimal (length pre)) (snd (unwrapCommand cmd 0)) False))"
proof -
  obtain u wu where uw: "unwrapCommand cmd 0 = (u, wu)"
    by (cases "unwrapCommand cmd 0")
  have git: "(if ''semantic_git'' \<in> relaxedChecks config ctx then None else checkSemanticGit u wu) = None"
    if "''semantic_git'' \<in> relaxedChecks config ctx \<or> \<not> fst (analyzeGitCommand u)"
    using that by (cases "analyzeGitCommand u") (auto simp: checkSemanticGit_def)
  have run: "checkCommand cmd config ctx =
             (if Pattern.ask item
              then result False True (Pattern.reason item)
                     (''yaml_pattern_'' @ decimal (length pre)) wu False
              else result True False (''Blocked: '' @ Pattern.reason item)
                     (''yaml_pattern_'' @ decimal (length pre)) wu False)"
    if "''bashToolPatterns'' \<notin> relaxedChecks config ctx"
      and "''semantic_git'' \<in> relaxedChecks config ctx \<or> \<not> fst (analyzeGitCommand u)"
      and "bashToolPatterns_compiled config = pre @ item # post"
      and "list_all (\<lambda>c. \<not> regexp_test (compiled c) u) pre"
      and "regexp_test (compiled item) u"
    using that(1) checkBashToolPatterns_first [OF that(4) that(5), of wu 0 post]
    by (simp only: checkCommand_def uw prod.case git [OF that(2)] that(3) if_False option.case
        add_0)
  show ?thesis
    using run
    by (simp add: compileRegexPatterns_def compileRegexPatterns_warnings_def
        compileRegexPatterns_from_kept compileRegexPatterns_from_regexps
        compileRegexPatterns_from_warnings uw)
qed

theorem patterns_compile_and_first_match_witness:
  "map pattern (compileRegexPatterns (bashToolPatterns patternsConfig))
     = [bs ''brm'' @ bs ''s+-rf'', bs ''brm'' @ bs ''b'']
   \<and> map snd (compileRegexPatterns_warnings (bashToolPatterns patternsConfig)) = [''('']
   \<and> ''bashToolPatterns'' \<notin> relaxedChecks (compileConfig exampleHome patternsConfig) None
   \<and> \<not> fst (analyzeGitCommand (fst (unwrapCommand ''rm -rf /tmp/x'' 0)))
   \<and> regexp_test (compiled (hd (bashToolPatterns_compiled (compileConfig exampleHome patternsConfig))))
         (fst (unwrapCommand ''rm -rf /tmp/x'' 0))
   \<and> checkCommand ''rm -rf /tmp/x'' (compileConfig exampleHome patternsConfig) None
       = result True False ''Blocked: rm with recursive flags'' ''yaml_pattern_0'' False False"
proof -
  let ?cc = "compileConfig exampleHome patternsConfig"
  let ?item = "hd (bashToolPatterns_compiled ?cc)"
  let ?post = "tl (bashToolPatterns_compiled ?cc)"
  have u: "unwrapCommand ''rm -rf /tmp/x'' 0 = (''rm -rf /tmp/x'', False)"
    by code_simp
  have k: "map pattern (compileRegexPatterns (bashToolPatterns patternsConfig))
     = [bs ''brm'' @ bs ''s+-rf'', bs ''brm'' @ bs ''b'']"
    by code_simp
  have w: "map snd (compileRegexPatterns_warnings (bashToolPatterns patternsConfig)) = [''('']"
    by code_simp
  have h1: "''bashToolPatterns'' \<notin> relaxedChecks ?cc None"
    by (simp add: relaxedChecks_def contextConfig_def)
  have h2: "''semantic_git'' \<in> relaxedChecks ?cc None
            \<or> \<not> fst (analyzeGitCommand (fst (unwrapCommand ''rm -rf /tmp/x'' 0)))"
    unfolding u by code_simp
  have h3: "bashToolPatterns_compiled ?cc = [] @ ?item # ?post"
    by code_simp
  have h4: "list_all (\<lambda>c. \<not> regexp_test (compiled c) (fst (unwrapCommand ''rm -rf /tmp/x'' 0))) []"
    by simp
  have h5: "regexp_test (compiled ?item) (fst (unwrapCommand ''rm -rf /tmp/x'' 0))"
    unfolding u by code_simp
  have i: "\<not> Pattern.ask ?item" "Pattern.reason ?item = ''rm with recursive flags''"
    "decimal (length ([] :: CompiledPattern list)) = ''0''"
    by code_simp+
  from patterns_compile_and_first_match
         [of "bashToolPatterns patternsConfig" ?cc None "''rm -rf /tmp/x''" "[]" ?item ?post]
       h1 h2 h3 h4 h5
  have "checkCommand ''rm -rf /tmp/x'' ?cc None =
          (if Pattern.ask ?item
           then result False True (Pattern.reason ?item)
                  (''yaml_pattern_'' @ decimal (length ([] :: CompiledPattern list)))
                  (snd (unwrapCommand ''rm -rf /tmp/x'' 0)) False
           else result True False (''Blocked: '' @ Pattern.reason ?item)
                  (''yaml_pattern_'' @ decimal (length ([] :: CompiledPattern list)))
                  (snd (unwrapCommand ''rm -rf /tmp/x'' 0)) False)"
    by blast
  then have "checkCommand ''rm -rf /tmp/x'' ?cc None
          = result True False ''Blocked: rm with recursive flags'' ''yaml_pattern_0'' False False"
    by (simp only: i u snd_conv if_False append.simps)
  with k w h1 h2 h5 show ?thesis
    by (simp add: relaxedChecks_def contextConfig_def)
qed


subsection \<open>C8: the Write hook classifies the path by tier\<close>

lemma firstMatchingPath_first:
  "list_all (\<lambda>q. \<not> matchPath home f q) pre \<Longrightarrow> matchPath home f p
     \<Longrightarrow> firstMatchingPath home f (pre @ p # post) = Some p"
  by (induction pre) simp_all

lemma firstMatchingPath_none:
  "list_all (\<lambda>q. \<not> matchPath home f q) ps \<Longrightarrow> firstMatchingPath home f ps = None"
  by (induction ps) simp_all

lemma relaxedChecks_update [simp]:
  "relaxedChecks (config\<lparr>bashToolPatterns := ps, noDeletePaths := nd\<rparr>) ctx = relaxedChecks config ctx"
  by (simp add: relaxedChecks_def contextConfig_def split: option.splits)

text \<open>
  Claim C8 says that for every Write invocation a path matched by a zero-access rule is
  reported as zero-access. The \<open>documentation\<close> context can relax a tier: with
  \<open>docRelaxedConfig\<close> the file \<^verbatim>\<open>secrets/notes.md\<close> is matched by the zero-access rule
  \<^verbatim>\<open>secrets/\<close>, the zero-access tier is skipped, and the write is blocked as a write to a
  read-only path.
\<close>

theorem relaxed_zero_access_reported_read_only:
  "matchPath exampleHome ''secrets/notes.md'' ''secrets/''
   \<and> write_detectContext ''Write'' (inputToolInput (writeRequest ''secrets/notes.md'')) docRelaxedConfig
       = Some ''documentation''
   \<and> checkPath exampleHome ''secrets/notes.md'' docRelaxedConfig (Some ''documentation'')
       = \<lparr>blocked = True, reason = ''read-only path secrets/''\<rparr>
   \<and> write_main exampleHome docRelaxedConfig (Some (writeRequest ''secrets/notes.md''))
       = ([WriteLogDecision ''Write'' ''secrets/notes.md'' ''blocked'' ''read-only path secrets/''
             (Some ''documentation''),
           WriteSpawnLogRotation,
           WriteConsoleError ''SECURITY: Blocked write to read-only path secrets/: secrets/notes.md''], 2)"
  by code_simp

text \<open>
  Claim C8 as amended. For every target path, configuration and context, the tiers are
  tried in the order zero-access, read-only, each unless the context relaxes it: the
  first zero-access rule that matches blocks, whatever the read-only rules are;
  otherwise the first read-only rule that matches blocks; otherwise the path is
  allowed. The result does not depend on the command patterns or the no-delete rules
  of the configuration (and the hook has no command to unwrap or analyze), and a Write
  request with a non-empty path is blocked (exit code 2) exactly when this check
  blocks.
\<close>

theorem checkPath_tiers:
  "(''zeroAccessPaths'' \<notin> relaxedChecks config ctx
      \<and> zeroAccessPaths config = pre @ z # post
      \<and> list_all (\<lambda>q. \<not> matchPath home f q) pre \<and> matchPath home f z
      \<longrightarrow> checkPath home f config ctx =
            \<lparr>blocked = True, reason = ''zero-access path '' @ z @ '' (no operations allowed)''\<rparr>)
   \<and> ((''zeroAccessPaths'' \<in> relaxedChecks config ctx
          \<or> list_all (\<lambda>q. \<not> matchPath home f q) (zeroAccessPaths config))
      \<and> ''readOnlyPaths'' \<notin> relaxedChecks config ctx
      \<and> readOnlyPaths config = pre' @ r # post'
      \<and> list_all (\<lambda>q. \<not> matchPath home f q) pre' \<and> matchPath home f r
      \<longrightarrow> checkPath home f config ctx = \<lparr>blocked = True, reason = ''read-only path '' @ r\<rparr>)
   \<and> ((''zeroAccessPaths'' \<in> relaxedChecks config ctx
          \<or> list_all (\<lambda>q. \<not> matchPath home f q) (zeroAccessPaths config))
      \<and> (''readOnlyPaths'' \<in> relaxedChecks config ctx
          \<or> list_all (\<lambda>q. \<not> matchPath home f q) (readOnlyPaths config))
      \<longrightarrow> checkPath home f config ctx = notBlocked)
   \<and> checkPath home f (config\<lparr>bashToolPatterns := ps, noDeletePaths := nd\<rparr>) ctx
       = checkPath home f config ctx
   \<and> (tool_name input = ''Write'' \<and> inputFilePath input \<noteq> []
      \<longrightarrow> snd (write_main home config (Some input)) =
            (if blocked (checkPath home (inputFilePath input) config
                           (write_detectContext ''Write'' (inputToolInput input) config))
             then 2 else 0))"
proof -
  have 1: "checkPath home f config ctx =
            \<lparr>blocked = True, reason = ''zero-access path '' @ z @ '' (no operations allowed)''\<rparr>"
    if "''zeroAccessPaths'' \<notin> relaxedChecks config ctx" "zeroAccessPaths config = pre @ z # post"
      "list_all (\<lambda>q. \<not> matchPath home f q) pre" "matchPath home f z"
    using that by (simp add: checkPath_def firstMatchingPath_first)
  have z: "(if ''zeroAccessPaths'' \<in> relaxedChecks config ctx then None
            else firstMatchingPath home f (zeroAccessPaths config)) = None"
    if "''zeroAccessPaths'' \<in> relaxedChecks config ctx
          \<or> list_all (\<lambda>q. \<not> matchPath home f q) (zeroAccessPaths config)"
    using that by (auto simp: firstMatchingPath_none)
  have 2: "checkPath home f config ctx = \<lparr>blocked = True, reason = ''read-only path '' @ r\<rparr>"
    if "''zeroAccessPaths'' \<in> relaxedChecks config ctx
          \<or> list_all (\<lambda>q. \<not> matchPath home f q) (zeroAccessPaths config)"
      "''readOnlyPaths'' \<notin> relaxedChecks config ctx" "readOnlyPaths config = pre' @ r # post'"
      "list_all (\<lambda>q. \<not> matchPath home f q) pre'" "matchPath home f r"
    using that(2-) by (simp add: checkPath_def z [OF that(1)] firstMatchingPath_first)
  have 3: "checkPath home f config ctx = notBlocked"
    if "''zeroAccessPaths'' \<in> relaxedChecks config ctx
          \<or> list_all (\<lambda>q. \<not> matchPath home f q) (zeroAccessPaths config)"
      "''readOnlyPaths'' \<in> relaxedChecks config ctx
          \<or> list_all (\<lambda>q. \<not> matchPath home f q) (readOnlyPaths config)"
    using that(2) by (auto simp: checkPath_def z [OF that(1)] firstMatchingPath_none)
  have 4: "checkPath home f (config\<lparr>bashToolPatterns := ps, noDeletePaths := nd\<rparr>) ctx
       = checkPath home f config ctx"
    by (simp add: checkPath_def cong: if_cong option.case_cong)
  have 5: "snd (write_main home config (Some input)) =
            (if blocked (checkPath home (inputFilePath input) config
                           (write_detectContext ''Write'' (inputToolInput input) config))
             then 2 else 0)"
    if "tool_name input = ''Write''" "inputFilePath input \<noteq> []"
    using that by (simp add: write_main_def Let_def)
  show ?thesis
    using 1 2 3 4 5 by blast
qed

theorem checkPath_tiers_witness:
  "checkPath exampleHome ''~/.ssh/key.pem'' writeConfig None =
     \<lparr>blocked = True, reason = ''zero-access path ~/.ssh/ (no operations allowed)''\<rparr>
   \<and> matchPath exampleHome ''~/.ssh/key.pem'' ''*.pem''
   \<and> checkPath exampleHome ''src/main.ts'' writeConfig None =
       \<lparr>blocked = True, reason = ''read-only path src/''\<rparr>
   \<and> checkPath exampleHome ''docs/notes.txt'' writeConfig None = notBlocked
   \<and> snd (write_main exampleHome writeConfig (Some (writeRequest ''src/main.ts''))) = 2"
proof -
  have r: "''zeroAccessPaths'' \<notin> relaxedChecks writeConfig None"
    "''readOnlyPaths'' \<notin> relaxedChecks writeConfig None"
    by (simp_all add: relaxedChecks_def contextConfig_def)
  have z: "zeroAccessPaths writeConfig = [] @ ''~/.ssh/'' # [''*.pem'']"
    and ro: "readOnlyPaths writeConfig = [] @ ''src/'' # [''*.pem'']"
    by (simp_all add: writeConfig_def)
  have m1: "matchPath exampleHome ''~/.ssh/key.pem'' ''~/.ssh/''"
    "matchPath exampleHome ''~/.ssh/key.pem'' ''*.pem''"
    by code_simp+
  have m2: "list_all (\<lambda>q. \<not> matchPath exampleHome ''src/main.ts'' q) (zeroAccessPaths writeConfig)"
    "matchPath exampleHome ''src/main.ts'' ''src/''"
    by code_simp+
  have m3: "list_all (\<lambda>q. \<not> matchPath exampleHome ''docs/notes.txt'' q) (zeroAccessPaths writeConfig)"
    "list_all (\<lambda>q. \<not> matchPath exampleHome ''docs/notes.txt'' q) (readOnlyPaths writeConfig)"
    by code_simp+
  have e: "list_all (\<lambda>q. \<not> matchPath exampleHome f q) []" for f
    by simp
  have i: "tool_name (writeRequest ''src/main.ts'') = ''Write''"
    "inputFilePath (writeRequest ''src/main.ts'') = ''src/main.ts''"
    "write_detectContext ''Write'' (inputToolInput (writeRequest ''src/main.ts'')) writeConfig = None"
    by code_simp+
  have ne: "''src/main.ts'' \<noteq> []"
    by simp
  note t1 = checkPath_tiers [of writeConfig None "[]" "''~/.ssh/''" "[''*.pem'']" exampleHome
      "''~/.ssh/key.pem''"]
  note t2 = checkPath_tiers [of writeConfig None _ _ _ exampleHome "''src/main.ts''"
      "[]" "''src/''" "[''*.pem'']" _ _ "writeRequest ''src/main.ts''"]
  note t3 = checkPath_tiers [of writeConfig None _ _ _ exampleHome "''docs/notes.txt''"]
  have c1: "checkPath exampleHome ''~/.ssh/key.pem'' writeConfig None =
     \<lparr>blocked = True, reason = ''zero-access path '' @ ''~/.ssh/'' @ '' (no operations allowed)''\<rparr>"
    using t1 r z m1 e by blast
  have c2: "checkPath exampleHome ''src/main.ts'' writeConfig None =
     \<lparr>blocked = True, reason = ''read-only path '' @ ''src/''\<rparr>"
    using t2 r ro m2 e by blast
  have c3: "checkPath exampleHome ''docs/notes.txt'' writeConfig None = notBlocked"
    using t3 r m3 by blast
  have c4: "snd (write_main exampleHome writeConfig (Some (writeRequest ''src/main.ts''))) =
     (if blocked (checkPath exampleHome ''src/main.ts'' writeConfig None) then 2 else 0)"
    using t2 i ne by (simp only: i) blast
  show ?thesis
    using c1 c2 c3 c4 m1(2) by simp
qed

subsection \<open>C10: requests the Bash hook lets pass unchecked\<close>

text \<open>
  Claim C10. For every request whose tool is not \<open>Bash\<close>, and every Bash request whose
  command is missing or empty, \<open>main\<close> ends with exit code 0 and no decision: nothing is
  logged, printed or asked, and no check runs. Its only output is what compiling the
  configuration wrote before the request was read (nothing at all when the hook is
  disabled).
\<close>

theorem main_skips_other_tools_and_empty_commands:
  assumes "tool_name input \<noteq> ''Bash'' \<or> inputCommand input = []"
  shows "main disabledHooks home config (Some input) =
           (if isHookDisabled disabledHooks then []
            else map ConsoleError (compileConfig_warnings config), 0)"
  using assms by (auto simp: main_def Let_def)

theorem main_skips_other_tools_and_empty_commands_witness:
  "main [] exampleHome patternsConfig
       (Some \<lparr>tool_name = ''Read'', tool_input = Some (bashInput ''rm -rf /'')\<rparr>)
     = ([ConsoleError ''Warning: Invalid regex pattern at index 0: (''], 0)
   \<and> main [] exampleHome patternsConfig (Some \<lparr>tool_name = ''Bash'', tool_input = None\<rparr>)
     = ([ConsoleError ''Warning: Invalid regex pattern at index 0: (''], 0)
   \<and> main [] exampleHome patternsConfig (Some \<lparr>tool_name = ''Bash'', tool_input = Some (bashInput [])\<rparr>)
     = ([ConsoleError ''Warning: Invalid regex pattern at index 0: (''], 0)"
proof -
  have w: "compileConfig_warnings patternsConfig = [''Warning: Invalid regex pattern at index 0: ('']"
    by code_simp
  have d: "\<not> isHookDisabled []"
    by code_simp
  have h1: "tool_name \<lparr>tool_name = ''Read'', tool_input = Some (bashInput ''rm -rf /'')\<rparr> \<noteq> ''Bash''
            \<or> inputCommand \<lparr>tool_name = ''Read'', tool_input = Some (bashInput ''rm -rf /'')\<rparr> = []"
    by simp
  have h2: "tool_name \<lparr>tool_name = ''Bash'', tool_input = None\<rparr> \<noteq> ''Bash''
            \<or> inputCommand \<lparr>tool_name = ''Bash'', tool_input = None\<rparr> = []"
    by (simp add: inputCommand_def)
  have h3: "tool_name \<lparr>tool_name = ''Bash'', tool_input = Some (bashInput [])\<rparr> \<noteq> ''Bash''
            \<or> inputCommand \<lparr>tool_name = ''Bash'', tool_input = Some (bashInput [])\<rparr> = []"
    by (simp add: inputCommand_def bashInput_def string_or_empty_def)
  show ?thesis
    using main_skips_other_tools_and_empty_commands [OF h1, of "[]" exampleHome patternsConfig]
      main_skips_other_tools_and_empty_commands [OF h2, of "[]" exampleHome patternsConfig]
      main_skips_other_tools_and_empty_commands [OF h3, of "[]" exampleHome patternsConfig]
    by (simp add: w d)
qed

end
